theory Spec2Isabelle
  imports
    Complex_Main
    "HOL-Library.AList"
    "HOL-Library.Char_ord"
    "HOL-Library.List_Lexorder"
    "HOL-Library.Product_Lexorder"
begin

section \<open>Data model of \<^verbatim>\<open>polymarket_analyzer.py\<close>\<close>

text \<open>
  Python floats are modelled as the real numbers: every sum, product and comparison of the
  source is the exact one. Strings are lists of characters; \<^verbatim>\<open>str.upper\<close> is modelled
  on the ASCII letters.
\<close>

datatype side = BUY | SELL

text \<open>A trade as \<^verbatim>\<open>normalize_trade\<close> returns it (the keys of its dictionary).\<close>

record trade =
  timestamp :: real
  market :: string
  asset :: string
  side :: side
  trade_size :: real
  price :: real

text \<open>
  What \<^verbatim>\<open>normalize_trade\<close> guarantees of every trade it lets through: it returns
  \<^verbatim>\<open>None\<close> when \<^verbatim>\<open>size <= 0 or price <= 0 or price > 1\<close>, and replaces a missing
  market or asset identifier by \<^verbatim>\<open>'unknown'\<close>.
\<close>

definition valid_trade :: "trade \<Rightarrow> bool" where
  "valid_trade t \<longleftrightarrow>
     0 < trade_size t \<and> 0 < price t \<and> price t \<le> 1 \<and> market t \<noteq> [] \<and> asset t \<noteq> []"

definition valid_trades :: "trade list \<Rightarrow> bool" where
  "valid_trades ts \<longleftrightarrow> list_all valid_trade ts"

datatype token_type = YES | NO | UNKNOWN

datatype position_status = Open | Won | Lost | Unknown

datatype resolution_status = RESOLVED | UNRESOLVED

text \<open>
  The pair \<^verbatim>\<open>(resolution_status, winning_asset)\<close> that \<^verbatim>\<open>fetch_market_resolution\<close>
  returns; \<^verbatim>\<open>None\<close> as status means that the lookup could not determine anything.
\<close>

type_synonym resolution = "resolution_status option \<times> string option"

text \<open>A lot of the FIFO queue: \<^verbatim>\<open>(shares, cost_per_share)\<close>.\<close>

type_synonym lot = "real \<times> real"

record market_result =
  r_market :: string
  r_asset :: string
  r_token_type :: token_type
  realized_pnl :: real
  unrealized_pnl :: real
  total_pnl :: real
  position :: real
  position_cost :: real
  r_position_status :: position_status
  volume :: real
  trade_count :: nat

record current_position =
  p_market :: string
  p_asset :: string
  p_token_type :: token_type
  p_size :: real
  avg_price :: real
  current_value :: real
  last_trade_ts :: real

record resolution_stats =
  resolved_won :: nat
  resolved_lost :: nat
  unresolved :: nat
  unknown :: nat

section \<open>Trade normalization\<close>

definition upper_char :: "char \<Rightarrow> char" where
  "upper_char c =
     (let n = (of_char c :: nat) in if 97 \<le> n \<and> n \<le> 122 then char_of (n - 32) else c)"

definition upper :: "string \<Rightarrow> string" where
  "upper s = map upper_char s"

text \<open>
  A raw record after the lookup of its fields: \<open>raw_timestamp\<close>, \<open>raw_size\<close> and
  \<open>raw_price\<close> are the parsed numbers (\<^verbatim>\<open>None\<close> when the conversion raises, which
  \<^verbatim>\<open>normalize_trade\<close> catches), \<open>raw_side\<close> is the string of the side, \<open>raw_market\<close>
  and \<open>raw_asset\<close> are the first alias of the identifier that is present.
\<close>

record raw_trade =
  raw_timestamp :: "real option"
  raw_size :: "real option"
  raw_price :: "real option"
  raw_side :: string
  raw_market :: "string option"
  raw_asset :: "string option"

text \<open>\<^verbatim>\<open>str(v) if v else 'unknown'\<close>.\<close>

definition str_or_unknown :: "string option \<Rightarrow> string" where
  "str_or_unknown v =
     (case v of None \<Rightarrow> ''unknown'' | Some s \<Rightarrow> if s = [] then ''unknown'' else s)"

definition normalize_trade :: "raw_trade \<Rightarrow> trade option" where
  "normalize_trade raw =
     (case raw_timestamp raw of
        None \<Rightarrow> None
      | Some ts \<Rightarrow>
     (case raw_size raw of
        None \<Rightarrow> None
      | Some sz \<Rightarrow>
     (case raw_price raw of
        None \<Rightarrow> None
      | Some pr \<Rightarrow>
          if sz \<le> 0 \<or> pr \<le> 0 \<or> pr > 1 then None
          else if upper (raw_side raw) = ''BUY'' then
            Some \<lparr>timestamp = ts, market = str_or_unknown (raw_market raw),
                  asset = str_or_unknown (raw_asset raw), side = BUY,
                  trade_size = sz, price = pr\<rparr>
          else if upper (raw_side raw) = ''SELL'' then
            Some \<lparr>timestamp = ts, market = str_or_unknown (raw_market raw),
                  asset = str_or_unknown (raw_asset raw), side = SELL,
                  trade_size = sz, price = pr\<rparr>
          else None)))"

section \<open>Token classification and resolution lookup\<close>

definition determine_token_type :: "string \<Rightarrow> token_type" where
  "determine_token_type asset_id =
     (if asset_id = [] \<or> asset_id = ''unknown'' then UNKNOWN
      else let asset_upper = upper asset_id in
        if asset_upper \<in> set [''YES'', ''TRUE'', ''1''] then YES
        else if asset_upper \<in> set [''NO'', ''FALSE'', ''0''] then NO
        else UNKNOWN)"

text \<open>
  \<^verbatim>\<open>fetch_market_resolution\<close> asks the exchange over the network and keeps every answer,
  also a failed one, in a cache keyed by the condition id alone. The exchange together
  with the cache is therefore a function of the condition id, the parameter \<open>api\<close>; the
  guard in front of the cache is the source's.
\<close>

definition fetch_market_resolution ::
  "(string \<Rightarrow> resolution) \<Rightarrow> string \<Rightarrow> string \<Rightarrow> resolution" where
  "fetch_market_resolution api condition_id asset_id =
     (if condition_id = [] \<or> condition_id = ''unknown'' then (None, None)
      else api condition_id)"

section \<open>The FIFO ledger\<close>

text \<open>
  The \<^verbatim>\<open>while sell_remaining > 0 and position_queue\<close> loop of a SELL, on the state
  \<^verbatim>\<open>(sell_remaining, sell_cost, position_queue)\<close>. After a partial close
  \<^verbatim>\<open>sell_remaining\<close> is 0 and the loop condition fails, so that branch returns.
\<close>

fun sell_loop :: "real \<Rightarrow> real \<Rightarrow> lot list \<Rightarrow> real \<times> real \<times> lot list" where
  "sell_loop sell_remaining sell_cost [] = (sell_remaining, sell_cost, [])"
| "sell_loop sell_remaining sell_cost ((lot_size, lot_price) # rest) =
     (if sell_remaining > 0 then
        (if lot_size \<le> sell_remaining
         then sell_loop (sell_remaining - lot_size) (sell_cost + lot_size * lot_price) rest
         else (0, sell_cost + sell_remaining * lot_price,
               (lot_size - sell_remaining, lot_price) # rest))
      else (sell_remaining, sell_cost, (lot_size, lot_price) # rest))"

text \<open>The state of the replay of one group: the queue and the two accumulators.\<close>

record ledger =
  position_queue :: "lot list"
  l_realized_pnl :: real
  total_volume :: real

definition ledger_init :: ledger where
  "ledger_init = \<lparr>position_queue = [], l_realized_pnl = 0, total_volume = 0\<rparr>"

text \<open>One iteration of \<^verbatim>\<open>for _, trade in trades.iterrows()\<close>.\<close>

definition apply_trade :: "ledger \<Rightarrow> trade \<Rightarrow> ledger" where
  "apply_trade l t =
     (let l1 = l\<lparr>total_volume := total_volume l + trade_size t * price t\<rparr> in
      if side t = BUY
      then l1\<lparr>position_queue := position_queue l1 @ [(trade_size t, price t)]\<rparr>
      else (case sell_loop (trade_size t) 0 (position_queue l1) of
              (sell_remaining, sell_cost, q) \<Rightarrow>
                l1\<lparr>position_queue := q,
                   l_realized_pnl := l_realized_pnl l1 + (trade_size t * price t - sell_cost)\<rparr>))"

definition replay :: "trade list \<Rightarrow> ledger" where
  "replay trades = foldl apply_trade ledger_init trades"

definition remaining_shares :: "lot list \<Rightarrow> real" where
  "remaining_shares q = sum_list (map fst q)"

definition remaining_cost :: "lot list \<Rightarrow> real" where
  "remaining_cost q = sum_list (map (\<lambda>lot. fst lot * snd lot) q)"

section \<open>Valuation of a group\<close>

text \<open>The computation of \<^verbatim>\<open>position_won\<close> for a resolved market.\<close>

definition position_won :: "string \<Rightarrow> token_type \<Rightarrow> string option \<Rightarrow> bool" where
  "position_won asset_id token_type winning_asset =
     (case winning_asset of
        None \<Rightarrow> False
      | Some w \<Rightarrow>
          if w = [] then False
          else if asset_id = w then True
          else if token_type = YES \<and> upper w \<in> set [''YES'', ''1'', ''TRUE''] then True
          else if token_type = NO \<and> upper w \<in> set [''NO'', ''0'', ''FALSE''] then True
          else False)"

text \<open>
  The branch on \<^verbatim>\<open>resolution_status\<close>: the unrealized profit, the status and the
  updated tally. \<open>trades\<close> is the group in replay order; \<^verbatim>\<open>trades.iloc[-1]\<close> is its last
  row.
\<close>

definition valuate ::
  "(string \<Rightarrow> resolution) \<Rightarrow> string \<Rightarrow> string \<Rightarrow> token_type \<Rightarrow> trade list \<Rightarrow> real \<Rightarrow> real \<Rightarrow>
     resolution_stats \<Rightarrow> real \<times> position_status \<times> resolution_stats" where
  "valuate api market_id asset_id token_type trades shares cost stats =
     (case fetch_market_resolution api market_id asset_id of
        (resolution_status, winning_asset) \<Rightarrow>
          if resolution_status = Some RESOLVED then
            (if position_won asset_id token_type winning_asset
             then (shares * 1 - cost, Won, stats\<lparr>resolved_won := resolved_won stats + 1\<rparr>)
             else (0 - cost, Lost, stats\<lparr>resolved_lost := resolved_lost stats + 1\<rparr>))
          else if resolution_status = Some UNRESOLVED then
            (shares * price (last trades) - cost, Open,
             stats\<lparr>unresolved := unresolved stats + 1\<rparr>)
          else
            (shares * price (last trades) - cost, Unknown,
             stats\<lparr>unknown := unknown stats + 1\<rparr>))"

text \<open>
  The body of the loop over the groups, for one group: the \<^verbatim>\<open>MarketResult\<close>, the tally
  and the positions appended to \<^verbatim>\<open>current_positions\<close> (none or one).
  \<^verbatim>\<open>sort_values('timestamp')\<close> is modelled as the stable sort on the time stamp: rows
  with equal time stamps keep their order.
\<close>

definition group_outcome ::
  "(string \<Rightarrow> resolution) \<Rightarrow> resolution_stats \<Rightarrow> string \<Rightarrow> string \<Rightarrow> trade list \<Rightarrow>
     market_result \<times> resolution_stats \<times> current_position list" where
  "group_outcome api stats market_id asset_id group_trades =
     (let trades = sort_key timestamp group_trades;
          token_type = determine_token_type asset_id;
          l = replay trades;
          shares = remaining_shares (position_queue l);
          cost = remaining_cost (position_queue l);
          (unrealized, status, stats', new_positions) =
            (if shares > 0.01 then
               (case valuate api market_id asset_id token_type trades shares cost stats of
                  (u, st, stats1) \<Rightarrow>
                    (u, st, stats1,
                     if st = Open then
                       [\<lparr>p_market = market_id, p_asset = asset_id, p_token_type = token_type,
                         p_size = shares,
                         avg_price = (if shares > 0 then cost / shares else 0),
                         current_value = u + cost,
                         last_trade_ts = timestamp (last trades)\<rparr>]
                     else []))
             else (0, Open, stats, []))
      in (\<lparr>r_market = market_id, r_asset = asset_id, r_token_type = token_type,
           realized_pnl = l_realized_pnl l, unrealized_pnl = unrealized,
           total_pnl = l_realized_pnl l + unrealized,
           position = shares, position_cost = cost, r_position_status = status,
           volume = total_volume l, trade_count = length trades\<rparr>,
          stats', new_positions))"

text \<open>
  \<^verbatim>\<open>groupby(['market', 'asset'])\<close>: the groups in the order of their keys, each with its
  rows in their original order.
\<close>

definition group_key :: "trade \<Rightarrow> string \<times> string" where
  "group_key t = (market t, asset t)"

definition group_rows :: "trade list \<Rightarrow> string \<times> string \<Rightarrow> trade list" where
  "group_rows df k = filter (\<lambda>t. group_key t = k) df"

definition groupby :: "trade list \<Rightarrow> ((string \<times> string) \<times> trade list) list" where
  "groupby df = map (\<lambda>k. (k, group_rows df k)) (sort (remdups (map group_key df)))"

text \<open>
  One pass of the loop over the groups: the result is stored under the key
  \<^verbatim>\<open>f"{market_id}:{asset_id}"\<close> (a later group whose key collides replaces the entry).
\<close>

definition process_group ::
  "(string \<Rightarrow> resolution) \<Rightarrow>
     (string \<times> market_result) list \<times> resolution_stats \<times> current_position list \<Rightarrow>
     (string \<times> string) \<times> trade list \<Rightarrow>
     (string \<times> market_result) list \<times> resolution_stats \<times> current_position list" where
  "process_group api acc g =
     (case acc of (market_results, stats, current_positions) \<Rightarrow>
      case g of ((market_id, asset_id), group_trades) \<Rightarrow>
      case group_outcome api stats market_id asset_id group_trades of
        (result, stats', new_positions) \<Rightarrow>
          (AList.update (market_id @ '':'' @ asset_id) result market_results,
           stats', current_positions @ new_positions))"

definition stats_init :: resolution_stats where
  "stats_init = \<lparr>resolved_won = 0, resolved_lost = 0, unresolved = 0, unknown = 0\<rparr>"

definition calculate_fifo_pnl_with_resolution ::
  "(string \<Rightarrow> resolution) \<Rightarrow> trade list \<Rightarrow>
     (string \<times> market_result) list \<times> resolution_stats \<times> current_position list" where
  "calculate_fifo_pnl_with_resolution api trades_df =
     foldl (process_group api) ([], stats_init, []) (groupby trades_df)"

section \<open>Rounding\<close>

text \<open>
  \<^verbatim>\<open>round(x, n)\<close> on the reals: to the nearest multiple of \<open>10\<^sup>-\<^sup>n\<close>, a tie to the even
  one.
\<close>

definition round_half_even :: "real \<Rightarrow> int" where
  "round_half_even x =
     (let f = \<lfloor>x\<rfloor>; d = x - of_int f in
      if d < 1 / 2 then f else if 1 / 2 < d then f + 1 else if even f then f else f + 1)"

definition py_round :: "real \<Rightarrow> nat \<Rightarrow> real" where
  "py_round x n = of_int (round_half_even (x * 10 ^ n)) / 10 ^ n"

section \<open>The metrics aggregator\<close>

text \<open>
  The local variables of \<^verbatim>\<open>analyze_trader\<close> as functions of the normalized trades
  \<open>df\<close>, of the results of the ledger and of \<open>now\<close> (\<^verbatim>\<open>time.time()\<close>). The source
  computes a mean, a median, a minimum or a maximum only of a non-empty list and divides
  only behind its guards (at least \<^verbatim>\<open>MIN_TRADES\<close> rows, \<^verbatim>\<open>not buys.empty\<close>,
  \<^verbatim>\<open>total_decided == 0\<close>, \<^verbatim>\<open>len(market_returns) > 1\<close>, \<^verbatim>\<open>std_return > 0\<close>), and the
  model keeps every guard. First the thresholds of the configuration.
\<close>

definition MIN_TRADES :: nat where "MIN_TRADES = 10"
definition MIN_WIN_RATE :: real where "MIN_WIN_RATE = 0.50"
definition MIN_MARKETS :: nat where "MIN_MARKETS = 3"
definition MAX_AVG_TRADE_SIZE :: real where "MAX_AVG_TRADE_SIZE = 5000"
definition MAX_AVG_BUY_PRICE :: real where "MAX_AVG_BUY_PRICE = 0.98"
definition MIN_ROI :: real where "MIN_ROI = 0.05"
definition MIN_SCORE :: real where "MIN_SCORE = 5"
definition RECENCY_HALF_LIFE_DAYS :: real where "RECENCY_HALF_LIFE_DAYS = 30"

text \<open>\<^verbatim>\<open>mean\<close>, \<^verbatim>\<open>np.std\<close> (of the population) and \<^verbatim>\<open>median\<close> of a non-empty list.\<close>

definition mean :: "real list \<Rightarrow> real" where
  "mean xs = sum_list xs / real (length xs)"

definition std :: "real list \<Rightarrow> real" where
  "std xs = sqrt (mean (map (\<lambda>x. (x - mean xs)\<^sup>2) xs))"

definition median :: "real list \<Rightarrow> real" where
  "median xs =
     (let s = sort xs; n = length xs in
      if odd n then s ! (n div 2) else (s ! (n div 2 - 1) + s ! (n div 2)) / 2)"

definition list_min :: "real list \<Rightarrow> real" where
  "list_min xs = fold min (tl xs) (hd xs)"

definition list_max :: "real list \<Rightarrow> real" where
  "list_max xs = fold max (tl xs) (hd xs)"

definition unique_markets :: "trade list \<Rightarrow> nat" where
  "unique_markets df = length (remdups (map market df))"

definition buys_of :: "trade list \<Rightarrow> trade list" where
  "buys_of df = filter (\<lambda>t. side t = BUY) df"

definition avg_buy_price_of :: "trade list \<Rightarrow> real" where
  "avg_buy_price_of df = (if buys_of df \<noteq> [] then mean (map price (buys_of df)) else 1.0)"

definition trade_values :: "trade list \<Rightarrow> real list" where
  "trade_values df = map (\<lambda>t. trade_size t * price t) df"

definition capital_deployed_of :: "trade list \<Rightarrow> real" where
  "capital_deployed_of df = sum_list (map (\<lambda>t. trade_size t * price t) (buys_of df))"

text \<open>\<^verbatim>\<open>market_pnl.values()\<close>.\<close>

definition market_pnl :: "(string \<Rightarrow> resolution) \<Rightarrow> trade list \<Rightarrow> market_result list" where
  "market_pnl api df = map snd (fst (calculate_fifo_pnl_with_resolution api df))"

definition profitable_markets_of :: "market_result list \<Rightarrow> nat" where
  "profitable_markets_of rs = length (filter (\<lambda>m. total_pnl m > 0) rs)"

definition losing_markets_of :: "market_result list \<Rightarrow> nat" where
  "losing_markets_of rs = length (filter (\<lambda>m. total_pnl m < 0) rs)"

definition total_decided :: "market_result list \<Rightarrow> nat" where
  "total_decided rs = profitable_markets_of rs + losing_markets_of rs"

definition win_rate_of :: "market_result list \<Rightarrow> real" where
  "win_rate_of rs = real (profitable_markets_of rs) / real (total_decided rs)"

definition roi_of :: "market_result list \<Rightarrow> trade list \<Rightarrow> real" where
  "roi_of rs df =
     (if capital_deployed_of df > 0 then sum_list (map total_pnl rs) / capital_deployed_of df
      else 0)"

definition effective_min_roi :: "real \<Rightarrow> real" where
  "effective_min_roi win_rate =
     (if win_rate \<ge> 0.90 then 0.0
      else if win_rate \<ge> 0.80 then MIN_ROI * 0.25
      else if win_rate \<ge> 0.70 then MIN_ROI * 0.5
      else MIN_ROI)"

definition market_returns :: "market_result list \<Rightarrow> real list" where
  "market_returns rs = map total_pnl (filter (\<lambda>m. trade_count m > 0) rs)"

definition sharpe_of :: "market_result list \<Rightarrow> real" where
  "sharpe_of rs =
     (if length (market_returns rs) > 1 then
        (let avg_return = mean (market_returns rs); std_return = std (market_returns rs) in
         if std_return > 0 then avg_return / std_return else 0)
      else 0)"

definition active_days_of :: "trade list \<Rightarrow> real" where
  "active_days_of df =
     max ((list_max (map timestamp df) - list_min (map timestamp df)) / 86400) 1"

definition days_since_active :: "real \<Rightarrow> trade list \<Rightarrow> real" where
  "days_since_active now df = (now - list_max (map timestamp df)) / 86400"

definition recency_of :: "real \<Rightarrow> trade list \<Rightarrow> real" where
  "recency_of now df =
     max (exp (- 0.693 * days_since_active now df / RECENCY_HALF_LIFE_DAYS)) 0.05"

text \<open>\<^verbatim>\<open>np.diff\<close> of the sorted time stamps.\<close>

definition time_gaps :: "trade list \<Rightarrow> real list" where
  "time_gaps df =
     (let s = sort (map timestamp df) in map2 (\<lambda>a b. b - a) (butlast s) (tl s))"

definition gap_pct :: "real \<Rightarrow> trade list \<Rightarrow> real" where
  "gap_pct bound df =
     (if length df > 1 then
        (if length (time_gaps df) > 0
         then real (length (filter (\<lambda>g. g < bound) (time_gaps df))) / real (length (time_gaps df))
         else 0)
      else 0.0)"

definition median_gap_seconds :: "trade list \<Rightarrow> real" where
  "median_gap_seconds df = (if length df > 1 then median (time_gaps df) else 86400.0)"

definition latency_risk_of :: "trade list \<Rightarrow> string" where
  "latency_risk_of df =
     (if gap_pct 10 df > 0.10 \<or> gap_pct 60 df > 0.30 then ''HIGH''
      else if gap_pct 60 df > 0.10 then ''MEDIUM''
      else ''LOW'')"

definition annualized_roi_of :: "real \<Rightarrow> real \<Rightarrow> real" where
  "annualized_roi_of roi active_days =
     (if roi > 0 \<and> active_days \<ge> 7 then min ((1 + roi) powr (365 / active_days) - 1) 20
      else roi)"

definition composite_score :: "real \<Rightarrow> real \<Rightarrow> real \<Rightarrow> nat \<Rightarrow> real \<Rightarrow> real \<Rightarrow> real" where
  "composite_score roi win_rate sharpe n median_trade recency =
     (min (roi * 100) 200 * 0.25
      + win_rate * 100 * 0.25
      + max sharpe (- 2) * 15 * 0.20
      + log 10 (real (n + 1)) * 15 * 0.15
      + (100 / (median_trade + 50)) * 20 * 0.15) * recency"

definition score_of :: "(string \<Rightarrow> resolution) \<Rightarrow> real \<Rightarrow> trade list \<Rightarrow> real" where
  "score_of api now df =
     composite_score (roi_of (market_pnl api df) df) (win_rate_of (market_pnl api df))
       (sharpe_of (market_pnl api df)) (length df) (median (trade_values df))
       (recency_of now df)"

text \<open>The dictionary that \<^verbatim>\<open>analyze_trader\<close> returns.\<close>

record metrics =
  m_address :: string
  m_score :: real
  m_roi_pct :: real
  m_annualized_roi_pct :: real
  m_win_rate :: real
  m_sharpe :: real
  m_total_pnl :: real
  m_capital_deployed :: real
  m_volume :: real
  m_trades :: nat
  m_markets :: nat
  m_profitable_markets :: nat
  m_losing_markets :: nat
  m_avg_buy_price :: real
  m_median_trade :: real
  m_avg_trade :: real
  m_active_days :: real
  m_days_inactive :: real
  m_recency :: real
  m_resolution_stats :: resolution_stats
  m_current_positions :: "current_position list"
  m_latency_risk :: string
  m_median_trade_gap_seconds :: real
  m_rapid_trade_pct :: real
  m_very_rapid_trade_pct :: real

text \<open>The values of the returned dictionary before they are rounded.\<close>

definition metrics_of :: "string \<Rightarrow> (string \<Rightarrow> resolution) \<Rightarrow> real \<Rightarrow> trade list \<Rightarrow> metrics" where
  "metrics_of address api now df =
     (let rs = market_pnl api df; roi = roi_of rs df in
      \<lparr>m_address = address,
       m_score = score_of api now df,
       m_roi_pct = roi * 100,
       m_annualized_roi_pct = annualized_roi_of roi (active_days_of df) * 100,
       m_win_rate = win_rate_of rs,
       m_sharpe = sharpe_of rs,
       m_total_pnl = sum_list (map total_pnl rs),
       m_capital_deployed = capital_deployed_of df,
       m_volume = sum_list (map volume rs),
       m_trades = length df,
       m_markets = unique_markets df,
       m_profitable_markets = profitable_markets_of rs,
       m_losing_markets = losing_markets_of rs,
       m_avg_buy_price = avg_buy_price_of df,
       m_median_trade = median (trade_values df),
       m_avg_trade = mean (trade_values df),
       m_active_days = active_days_of df,
       m_days_inactive = days_since_active now df,
       m_recency = recency_of now df,
       m_resolution_stats = fst (snd (calculate_fifo_pnl_with_resolution api df)),
       m_current_positions = snd (snd (calculate_fifo_pnl_with_resolution api df)),
       m_latency_risk = latency_risk_of df,
       m_median_trade_gap_seconds = median_gap_seconds df,
       m_rapid_trade_pct = gap_pct 60 df * 100,
       m_very_rapid_trade_pct = gap_pct 10 df * 100\<rparr>)"

text \<open>The \<^verbatim>\<open>round\<close> calls of the \<^verbatim>\<open>return\<close> statement.\<close>

definition round_metrics :: "metrics \<Rightarrow> metrics" where
  "round_metrics m =
     m\<lparr>m_score := py_round (m_score m) 2,
       m_roi_pct := py_round (m_roi_pct m) 2,
       m_annualized_roi_pct := py_round (m_annualized_roi_pct m) 1,
       m_win_rate := py_round (m_win_rate m) 3,
       m_sharpe := py_round (m_sharpe m) 3,
       m_total_pnl := py_round (m_total_pnl m) 2,
       m_capital_deployed := py_round (m_capital_deployed m) 2,
       m_volume := py_round (m_volume m) 2,
       m_avg_buy_price := py_round (m_avg_buy_price m) 3,
       m_median_trade := py_round (m_median_trade m) 2,
       m_avg_trade := py_round (m_avg_trade m) 2,
       m_active_days := py_round (m_active_days m) 1,
       m_days_inactive := py_round (m_days_inactive m) 1,
       m_recency := py_round (m_recency m) 3,
       m_median_trade_gap_seconds := py_round (m_median_trade_gap_seconds m) 1,
       m_rapid_trade_pct := py_round (m_rapid_trade_pct m) 1,
       m_very_rapid_trade_pct := py_round (m_very_rapid_trade_pct m) 1\<rparr>"

text \<open>
  The filters of \<^verbatim>\<open>analyze_trader\<close> in their order, on the normalized trades \<open>df\<close>;
  \<open>now\<close> is \<^verbatim>\<open>time.time()\<close>. \<^verbatim>\<open>None\<close> is the rejection of the trader.
\<close>

definition analyze_normalized ::
  "string \<Rightarrow> (string \<Rightarrow> resolution) \<Rightarrow> real \<Rightarrow> trade list \<Rightarrow> metrics option" where
  "analyze_normalized address api now df =
     (if length df < MIN_TRADES then None
      else if unique_markets df < MIN_MARKETS then None
      else if avg_buy_price_of df > MAX_AVG_BUY_PRICE then None
      else if mean (trade_values df) > MAX_AVG_TRADE_SIZE then None
      else if capital_deployed_of df \<le> 0 then None
      else if total_decided (market_pnl api df) = 0 then None
      else if win_rate_of (market_pnl api df) < MIN_WIN_RATE then None
      else if roi_of (market_pnl api df) df < effective_min_roi (win_rate_of (market_pnl api df))
        then None
      else if score_of api now df < MIN_SCORE then None
      else Some (metrics_of address api now df))"

definition analyze_trader ::
  "string \<Rightarrow> (string \<Rightarrow> resolution) \<Rightarrow> real \<Rightarrow> raw_trade list \<Rightarrow> metrics option" where
  "analyze_trader address api now trades =
     map_option round_metrics
       (analyze_normalized address api now (List.map_filter normalize_trade trades))"

section \<open>The strategy recommender\<close>

text \<open>
  The keys of the metrics dictionary that \<^verbatim>\<open>recommend_copy_strategy\<close> reads with
  \<^verbatim>\<open>metrics.get(key, default)\<close>: a key may be absent.
\<close>

record metrics_input =
  i_latency_risk :: "string option"
  i_avg_trade :: "real option"
  i_median_trade :: "real option"
  i_win_rate :: "real option"
  i_sharpe :: "real option"
  i_roi_pct :: "real option"
  i_trades :: "nat option"
  i_capital_deployed :: "real option"
  i_active_days :: "real option"

definition get_or :: "'a option \<Rightarrow> 'a \<Rightarrow> 'a" where
  "get_or v d = (case v of None \<Rightarrow> d | Some x \<Rightarrow> x)"

datatype order_type = Limit | Hybrid | Market

datatype sizing_method = Fixed_amount | Pct_of_trade

datatype strategy = Limit_fixed | Limit_proportional | Market_fixed | Market_proportional | Adaptive

text \<open>The texts appended to \<^verbatim>\<open>reasons\<close> and \<^verbatim>\<open>warnings\<close>, with the values they print.\<close>

datatype reason =
    Reason_high_latency | Reason_medium_latency | Reason_low_latency
  | Reason_fixed_sizing real | Reason_similar_capital real | Reason_too_small real
  | Reason_scale_down real | Reason_more_capital | Reason_limit_minimum
  | Reason_elite | Reason_win_rate_70 | Reason_adaptive
  | Reason_compounding real | Reason_compounding_start real real real

datatype warning =
    Warning_may_not_fill | Warning_market_minimum | Warning_conservative
  | Warning_daily_usage real

record compounding_params =
  base_size :: real
  reinvestment_rate :: real
  profit_tier_increment :: real
  size_increase_per_tier :: real
  max_size_multiplier :: real
  drawdown_halve_threshold :: real
  drawdown_reset_threshold :: real
  drawdown_pause_threshold :: real

record recommendation =
  primary_strategy :: "strategy option"
  rec_order_type :: order_type
  rec_sizing_method :: sizing_method
  suggested_size :: real
  max_position_pct :: real
  reasons :: "reason list"
  warnings :: "warning list"
  expected_trades_per_day :: real
  expected_capital_usage :: real
  compounding_recommended :: bool
  compounding :: "compounding_params option"

text \<open>Step 1: the order type from the latency risk.\<close>

definition order_type_of :: "string \<Rightarrow> order_type \<times> reason list \<times> warning list" where
  "order_type_of latency_risk =
     (if latency_risk = ''HIGH'' then (Limit, [Reason_high_latency], [Warning_may_not_fill])
      else if latency_risk = ''MEDIUM'' then (Hybrid, [Reason_medium_latency], [])
      else (Market, [Reason_low_latency], []))"

text \<open>The fixed-size percentage, written twice in the source.\<close>

definition size_pct :: "real \<Rightarrow> real" where
  "size_pct win_rate = (if win_rate > 0.5 then 0.05 + (win_rate - 0.5) * 0.4 else 0.05)"

text \<open>Step 2: the sizing method and the suggested size.\<close>

definition sizing_of :: "real \<Rightarrow> real \<Rightarrow> real \<Rightarrow> real \<Rightarrow> sizing_method \<times> real \<times> reason list" where
  "sizing_of avg_trade win_rate trader_capital portfolio_balance =
     (let our_vs_trader_ratio =
            (if trader_capital > 0 then portfolio_balance / trader_capital else 0.01) in
      if avg_trade > portfolio_balance * 0.4 then
        (Fixed_amount, max 1.0 (portfolio_balance * size_pct win_rate),
         [Reason_fixed_sizing avg_trade])
      else if our_vs_trader_ratio > 0.5 \<and> our_vs_trader_ratio < 2.0 then
        (Pct_of_trade, min 1.0 our_vs_trader_ratio,
         [Reason_similar_capital (min 1.0 our_vs_trader_ratio)])
      else if our_vs_trader_ratio < 0.5 then
        (let est_trade_val = avg_trade * our_vs_trader_ratio in
         if est_trade_val < 2.0 then
           (Fixed_amount, max 2.0 (portfolio_balance * size_pct win_rate),
            [Reason_too_small est_trade_val])
         else (Pct_of_trade, our_vs_trader_ratio,
               [Reason_scale_down (1 / our_vs_trader_ratio)]))
      else (Fixed_amount, min avg_trade (portfolio_balance * 0.05), [Reason_more_capital]))"

text \<open>Step 3: the minimum of the order type.\<close>

definition clamp_size ::
  "order_type \<Rightarrow> sizing_method \<Rightarrow> real \<Rightarrow> real \<times> reason list \<times> warning list" where
  "clamp_size ot sm sz =
     (if ot = Limit then
        (if sm = Fixed_amount \<and> sz < 0.01 then 0.01 else sz, [Reason_limit_minimum], [])
      else if sm = Fixed_amount \<and> sz < 1.0 then (1.0, [], [Warning_market_minimum])
      else (sz, [], []))"

text \<open>Step 4: the maximal position, in percent of the portfolio.\<close>

definition max_position_of :: "real \<Rightarrow> real \<Rightarrow> real \<times> reason list \<times> warning list" where
  "max_position_of sharpe win_rate =
     (if sharpe > 1.0 \<and> win_rate > 0.6 then (25.0, [Reason_elite], [])
      else if win_rate > 0.7 then (30.0, [Reason_win_rate_70], [])
      else if sharpe > 0.5 \<and> win_rate > 0.55 then (15.0, [], [])
      else if sharpe > 0 \<and> win_rate > 0.52 then (10.0, [], [])
      else (5.0, [], [Warning_conservative]))"

text \<open>Step 5: trades per day and daily capital (both stay 0 without active days).\<close>

definition usage_of ::
  "real \<Rightarrow> real \<Rightarrow> real \<Rightarrow> sizing_method \<Rightarrow> real \<Rightarrow> real \<Rightarrow> real \<times> real \<times> warning list" where
  "usage_of active_days trades_count avg_trade sm sz portfolio_balance =
     (if active_days > 0 then
        (let trades_per_day = trades_count / active_days;
             daily_capital = (if sm = Fixed_amount then trades_per_day * sz
                              else trades_per_day * avg_trade * sz) in
         (py_round trades_per_day 1, py_round daily_capital 2,
          if daily_capital > portfolio_balance * 0.5 then [Warning_daily_usage daily_capital]
          else []))
      else (0, 0, []))"

text \<open>Step 6: the name of the primary strategy.\<close>

definition primary_of :: "order_type \<Rightarrow> sizing_method \<Rightarrow> strategy option \<times> reason list" where
  "primary_of ot sm =
     (if ot = Limit \<and> sm = Fixed_amount then (Some Limit_fixed, [])
      else if ot = Limit \<and> sm = Pct_of_trade then (Some Limit_proportional, [])
      else if ot = Market \<and> sm = Fixed_amount then (Some Market_fixed, [])
      else if ot = Market \<and> sm = Pct_of_trade then (Some Market_proportional, [])
      else if ot = Hybrid then (Some Adaptive, [Reason_adaptive])
      else (None, []))"

text \<open>
  Step 7: the five parameters that the branch on the win rate assigns,
  \<^verbatim>\<open>(base_size_pct, reinvestment_rate, tier_increment, size_increase, max_multiplier)\<close>.
\<close>

definition compounding_tier :: "real \<Rightarrow> real \<times> real \<times> real \<times> real \<times> real" where
  "compounding_tier win_rate =
     (if win_rate \<ge> 0.75 then (0.05, 0.60, 15.0, 0.30, 5.0)
      else if win_rate \<ge> 0.65 then (0.04, 0.50, 20.0, 0.25, 4.0)
      else (0.03, 0.40, 25.0, 0.20, 3.0))"

definition compounding_of ::
  "real \<Rightarrow> real \<Rightarrow> real \<Rightarrow> bool \<times> compounding_params option \<times> reason list" where
  "compounding_of win_rate sharpe portfolio_balance =
     (if win_rate \<ge> 0.60 \<and> sharpe > 0 then
        (case compounding_tier win_rate of
           (base_size_pct, reinvestment, tier_increment, size_increase, max_multiplier) \<Rightarrow>
             (let base = portfolio_balance * base_size_pct in
              (True,
               Some \<lparr>base_size = py_round base 2,
                     reinvestment_rate = reinvestment,
                     profit_tier_increment = tier_increment,
                     size_increase_per_tier = size_increase,
                     max_size_multiplier = max_multiplier,
                     drawdown_halve_threshold = 0.20,
                     drawdown_reset_threshold = 0.40,
                     drawdown_pause_threshold = 0.60\<rparr>,
               [Reason_compounding win_rate,
                Reason_compounding_start base reinvestment max_multiplier])))
      else (False, None, []))"

definition recommend_copy_strategy :: "metrics_input \<Rightarrow> real \<Rightarrow> recommendation" where
  "recommend_copy_strategy metrics portfolio_balance =
     (let latency_risk = get_or (i_latency_risk metrics) ''LOW'';
          avg_trade = get_or (i_avg_trade metrics) 50;
          win_rate = get_or (i_win_rate metrics) 0.5;
          sharpe = get_or (i_sharpe metrics) 0;
          trades_count = real (get_or (i_trades metrics) 0);
          trader_capital = get_or (i_capital_deployed metrics) 1000;
          active_days = get_or (i_active_days metrics) 30;
          (ot, reasons1, warnings1) = order_type_of latency_risk;
          (sm, size2, reasons2) = sizing_of avg_trade win_rate trader_capital portfolio_balance;
          (size3, reasons3, warnings3) = clamp_size ot sm size2;
          (max_pct, reasons4, warnings4) = max_position_of sharpe win_rate;
          (per_day, usage, warnings5) = usage_of active_days trades_count avg_trade sm size3
                                          portfolio_balance;
          (primary, reasons6) = primary_of ot sm;
          (recommended, params, reasons7) = compounding_of win_rate sharpe portfolio_balance
      in \<lparr>primary_strategy = primary, rec_order_type = ot, rec_sizing_method = sm,
          suggested_size = size3, max_position_pct = max_pct,
          reasons = reasons1 @ reasons2 @ reasons3 @ reasons4 @ reasons6 @ reasons7,
          warnings = warnings1 @ warnings3 @ warnings4 @ warnings5,
          expected_trades_per_day = per_day, expected_capital_usage = usage,
          compounding_recommended = recommended, compounding = params\<rparr>)"

text \<open>The dictionary of a trader as the recommender reads it: every key is present.\<close>

definition metrics_dict :: "metrics \<Rightarrow> metrics_input" where
  "metrics_dict m =
     \<lparr>i_latency_risk = Some (m_latency_risk m), i_avg_trade = Some (m_avg_trade m),
      i_median_trade = Some (m_median_trade m), i_win_rate = Some (m_win_rate m),
      i_sharpe = Some (m_sharpe m), i_roi_pct = Some (m_roi_pct m),
      i_trades = Some (m_trades m), i_capital_deployed = Some (m_capital_deployed m),
      i_active_days = Some (m_active_days m)\<rparr>"

section \<open>Measures and predicates of the properties\<close>

text \<open>
  The quantities that the properties of the ledger speak about: the volumes, costs and
  revenues of a list of trades, the volume of a sell that is matched against lots
  (its size minus the \<^verbatim>\<open>sell_remaining\<close> that the loop leaves), and the condition that
  no sell is larger than the shares held when it arrives.
\<close>

definition lots_positive :: "lot list \<Rightarrow> bool" where
  "lots_positive q \<longleftrightarrow> list_all (\<lambda>lot. 0 < fst lot) q"

definition buy_volume :: "trade list \<Rightarrow> real" where
  "buy_volume ts = sum_list (map trade_size (filter (\<lambda>t. side t = BUY) ts))"

definition sell_volume :: "trade list \<Rightarrow> real" where
  "sell_volume ts = sum_list (map trade_size (filter (\<lambda>t. side t = SELL) ts))"

definition buy_cost :: "trade list \<Rightarrow> real" where
  "buy_cost ts = sum_list (map (\<lambda>t. trade_size t * price t) (filter (\<lambda>t. side t = BUY) ts))"

definition sell_revenue :: "trade list \<Rightarrow> real" where
  "sell_revenue ts = sum_list (map (\<lambda>t. trade_size t * price t) (filter (\<lambda>t. side t = SELL) ts))"

definition matched :: "lot list \<Rightarrow> trade \<Rightarrow> real" where
  "matched q t = (if side t = BUY then 0 else trade_size t - fst (sell_loop (trade_size t) 0 q))"

fun consumed_volume :: "ledger \<Rightarrow> trade list \<Rightarrow> real" where
  "consumed_volume l [] = 0"
| "consumed_volume l (t # ts) = matched (position_queue l) t + consumed_volume (apply_trade l t) ts"

fun never_oversold :: "ledger \<Rightarrow> trade list \<Rightarrow> bool" where
  "never_oversold l [] = True"
| "never_oversold l (t # ts) =
     ((if side t = BUY then True else trade_size t \<le> remaining_shares (position_queue l))
      \<and> never_oversold (apply_trade l t) ts)"

definition lot_prices_positive :: "lot list \<Rightarrow> bool" where
  "lot_prices_positive q \<longleftrightarrow> list_all (\<lambda>lot. 0 < snd lot) q"

definition ledger_ok :: "ledger \<Rightarrow> bool" where
  "ledger_ok l \<longleftrightarrow> lots_positive (position_queue l) \<and> lot_prices_positive (position_queue l)"


text \<open>The position entry that belongs to the result \<open>r\<close> of a group \<open>g\<close>: one entry for a
  group of more than 0.01 remaining shares and status open, none otherwise.\<close>

definition emitted_position :: "market_result \<Rightarrow> trade list \<Rightarrow> current_position list" where
  "emitted_position r g =
     (if 0.01 < position r \<and> r_position_status r = Open
      then [\<lparr>p_market = r_market r, p_asset = r_asset r, p_token_type = r_token_type r,
             p_size = position r, avg_price = position_cost r / position r,
             current_value = unrealized_pnl r + position_cost r,
             last_trade_ts = timestamp (last (sort_key timestamp g))\<rparr>]
      else [])"

text \<open>The parameters of one tier together with the fixed drawdown thresholds.\<close>

definition tier_params :: "real \<Rightarrow> real \<Rightarrow> real \<Rightarrow> real \<Rightarrow> real \<Rightarrow> compounding_params" where
  "tier_params base reinvest tier_increment increase cap =
     \<lparr>base_size = base, reinvestment_rate = reinvest, profit_tier_increment = tier_increment,
      size_increase_per_tier = increase, max_size_multiplier = cap,
      drawdown_halve_threshold = 0.20, drawdown_reset_threshold = 0.40,
      drawdown_pause_threshold = 0.60\<rparr>"

section \<open>Example inputs\<close>

text \<open>
  The group of the spec's first scenario, \<^verbatim>\<open>[BUY 10@0.40, BUY 10@0.60, SELL 15@0.70]\<close>,
  and the same group followed by a sell of 10 shares when only 5 are held.
\<close>

definition scenario_trades :: "trade list" where
  "scenario_trades =
     [\<lparr>timestamp = 1, market = ''0xm1'', asset = ''101'', side = BUY, trade_size = 10, price = 0.4\<rparr>,
      \<lparr>timestamp = 2, market = ''0xm1'', asset = ''101'', side = BUY, trade_size = 10, price = 0.6\<rparr>,
      \<lparr>timestamp = 3, market = ''0xm1'', asset = ''101'', side = SELL, trade_size = 15, price = 0.7\<rparr>]"

definition oversold_trades :: "trade list" where
  "oversold_trades = scenario_trades @
     [\<lparr>timestamp = 4, market = ''0xm1'', asset = ''101'', side = SELL, trade_size = 10, price = 0.5\<rparr>]"

text \<open>
  Three exchanges: one on which no market has settled, one on which token 101 has won in
  every market, and one whose lookups all fail.
\<close>

definition api_unresolved :: "string \<Rightarrow> resolution" where
  "api_unresolved condition_id = (Some UNRESOLVED, None)"



text \<open>
  A group that is bought and sold completely, with its result; and the result of the
  scenario group for a given unrealized profit and status.
\<close>

definition closed_trades :: "trade list" where
  "closed_trades =
     [\<lparr>timestamp = 1, market = ''0xm1'', asset = ''101'', side = BUY, trade_size = 10, price = 0.4\<rparr>,
      \<lparr>timestamp = 2, market = ''0xm1'', asset = ''101'', side = SELL, trade_size = 10, price = 0.5\<rparr>]"

definition closed_result :: market_result where
  "closed_result =
     \<lparr>r_market = ''0xm1'', r_asset = ''101'', r_token_type = UNKNOWN,
      realized_pnl = 1, unrealized_pnl = 0, total_pnl = 1, position = 0, position_cost = 0,
      r_position_status = Open, volume = 9, trade_count = 2\<rparr>"


text \<open>The metrics of the third scenario of the specification.\<close>

definition scenario_metrics :: metrics_input where
  "scenario_metrics =
     \<lparr>i_latency_risk = Some ''LOW'', i_avg_trade = Some 2000, i_median_trade = Some 1500,
      i_win_rate = Some 0.65, i_sharpe = Some 0.8, i_roi_pct = Some 12, i_trades = Some 40,
      i_capital_deployed = Some 50000, i_active_days = Some 20\<rparr>"

text \<open>
  Traders for the examples: \<open>round_trip\<close> buys 10 shares in a market and sells them an
  hour later; \<open>flat_trader\<close> does so in five markets at an unchanged price, one market
  a day; \<open>one_win_trader\<close> is the same trader with a gain of 1 in the first market.
  \<open>raw_of\<close> is a raw record that normalizes to the given trade.
\<close>

definition round_trip :: "string \<Rightarrow> real \<Rightarrow> real \<Rightarrow> real \<Rightarrow> trade list" where
  "round_trip m ts buy_price sell_price =
     [\<lparr>timestamp = ts, market = m, asset = ''101'', side = BUY, trade_size = 10,
         price = buy_price\<rparr>,
      \<lparr>timestamp = ts + 3600, market = m, asset = ''101'', side = SELL, trade_size = 10,
         price = sell_price\<rparr>]"

definition flat_markets :: "trade list" where
  "flat_markets =
     round_trip ''0xm2'' 86400 0.5 0.5 @ round_trip ''0xm3'' 172800 0.5 0.5
     @ round_trip ''0xm4'' 259200 0.5 0.5 @ round_trip ''0xm5'' 345600 0.5 0.5"

definition flat_trader :: "trade list" where
  "flat_trader = round_trip ''0xm1'' 0 0.5 0.5 @ flat_markets"

definition one_win_trader :: "trade list" where
  "one_win_trader = round_trip ''0xm1'' 0 0.4 0.5 @ flat_markets"

definition round_trip_result :: "string \<Rightarrow> real \<Rightarrow> real \<Rightarrow> market_result" where
  "round_trip_result m pnl vol =
     \<lparr>r_market = m, r_asset = ''101'', r_token_type = UNKNOWN,
      realized_pnl = pnl, unrealized_pnl = 0, total_pnl = pnl, position = 0, position_cost = 0,
      r_position_status = Open, volume = vol, trade_count = 2\<rparr>"

definition raw_of :: "trade \<Rightarrow> raw_trade" where
  "raw_of t =
     \<lparr>raw_timestamp = Some (timestamp t), raw_size = Some (trade_size t),
      raw_price = Some (price t),
      raw_side = (if side t = BUY then ''BUY'' else ''SELL''),
      raw_market = Some (market t), raw_asset = Some (asset t)\<rparr>"

section \<open>The sell loop and the replay\<close>

lemma sell_loop_positive:
  "sell_loop r c q = (r', c', q') \<Longrightarrow> lots_positive q \<Longrightarrow> lots_positive q'"
  by (induction r c q rule: sell_loop.induct) (auto simp: lots_positive_def split: if_splits)

lemma sell_loop_shares:
  "sell_loop r c q = (r', c', q') \<Longrightarrow> remaining_shares q' = remaining_shares q - (r - r')"
  by (induction r c q rule: sell_loop.induct) (auto simp: remaining_shares_def split: if_splits)

lemma sell_loop_cost:
  "sell_loop r c q = (r', c', q') \<Longrightarrow> c' = c + remaining_cost q - remaining_cost q'"
  by (induction r c q rule: sell_loop.induct)
     (auto simp: remaining_cost_def algebra_simps split: if_splits)

lemma sell_loop_remaining:
  "sell_loop r c q = (r', c', q') \<Longrightarrow> 0 \<le> r \<Longrightarrow> lots_positive q \<Longrightarrow> 0 \<le> r' \<and> r' \<le> r"
  by (induction r c q rule: sell_loop.induct)
     (fastforce simp: lots_positive_def split: if_splits)+

lemma lots_positive_shares: "lots_positive q \<Longrightarrow> 0 \<le> remaining_shares q"
  by (induction q) (auto simp: lots_positive_def remaining_shares_def)

lemma lots_positive_zero: "lots_positive q \<Longrightarrow> remaining_shares q = 0 \<Longrightarrow> q = []"
proof (cases q)
  case Nil then show ?thesis by simp
next
  case (Cons a rest)
  assume p: "lots_positive q" and z: "remaining_shares q = 0"
  from p Cons have "0 < fst a" "lots_positive rest" by (auto simp: lots_positive_def)
  with lots_positive_shares [of rest] z Cons show ?thesis
    by (simp add: remaining_shares_def)
qed

lemma sell_loop_oversell:
  "sell_loop r c q = (r', c', q') \<Longrightarrow> lots_positive q \<Longrightarrow> remaining_shares q < r \<Longrightarrow>
     q' = [] \<and> r' = r - remaining_shares q \<and> c' = c + remaining_cost q"
proof (induction r c q rule: sell_loop.induct)
  case (1 r c)
  then show ?case by (simp add: remaining_shares_def remaining_cost_def)
next
  case (2 r c lot_size lot_price rest)
  from "2.prems" have pos: "0 < lot_size" "lots_positive rest"
    by (auto simp: lots_positive_def)
  from lots_positive_shares [OF pos(2)] "2.prems"(3)
  have le: "lot_size \<le> r" "remaining_shares rest < r - lot_size" "0 < r"
    using pos(1) by (auto simp: remaining_shares_def)
  with "2.prems"(1) have "sell_loop (r - lot_size) (c + lot_size * lot_price) rest = (r', c', q')"
    by simp
  from "2.IH" [OF le(3) le(1) this pos(2) le(2)] show ?case
    by (simp add: remaining_shares_def remaining_cost_def)
qed

lemma sell_loop_covered:
  "sell_loop r c q = (r', c', q') \<Longrightarrow> lots_positive q \<Longrightarrow> 0 \<le> r \<Longrightarrow> r \<le> remaining_shares q \<Longrightarrow>
     r' = 0"
proof (induction r c q rule: sell_loop.induct)
  case (1 r c)
  then show ?case by (simp add: remaining_shares_def)
next
  case (2 r c lot_size lot_price rest)
  from "2.prems" have pos: "0 < lot_size" "lots_positive rest"
    by (auto simp: lots_positive_def)
  show ?case
  proof (cases "0 < r")
    case False
    with "2.prems" show ?thesis by simp
  next
    case True
    show ?thesis
    proof (cases "lot_size \<le> r")
      case False
      with True "2.prems"(1) show ?thesis by simp
    next
      case le: True
      with True "2.prems"(1)
      have eq: "sell_loop (r - lot_size) (c + lot_size * lot_price) rest = (r', c', q')"
        by simp
      from le "2.prems"(4) have "0 \<le> r - lot_size" "r - lot_size \<le> remaining_shares rest"
        by (auto simp: remaining_shares_def)
      from "2.IH" [OF True le eq pos(2) this] show ?thesis .
    qed
  qed
qed

lemma sell_loop_prices:
  "sell_loop r c q = (r', c', q') \<Longrightarrow> lot_prices_positive q \<Longrightarrow> lot_prices_positive q'"
  by (induction r c q rule: sell_loop.induct) (auto simp: lot_prices_positive_def split: if_splits)

lemma sell_loop_cost_mono:
  "sell_loop r c q = (r', c', q') \<Longrightarrow> lots_positive q \<Longrightarrow> lot_prices_positive q \<Longrightarrow> c \<le> c'"
proof (induction r c q arbitrary: r' c' q' rule: sell_loop.induct)
  case (1 r c)
  then show ?case by simp
next
  case (2 r c lot_size lot_price rest)
  from "2.prems" have pos: "0 < lot_size" "0 < lot_price" "lots_positive rest" "lot_prices_positive rest"
    by (auto simp: lots_positive_def lot_prices_positive_def)
  show ?case
  proof (cases "0 < r")
    case False
    with "2.prems"(1) show ?thesis by simp
  next
    case True
    show ?thesis
    proof (cases "lot_size \<le> r")
      case False
      with True "2.prems"(1) have "c' = c + r * lot_price" by simp
      with True pos(2) show ?thesis by simp
    next
      case le: True
      with True "2.prems"(1)
      have "sell_loop (r - lot_size) (c + lot_size * lot_price) rest = (r', c', q')" by simp
      from "2.IH" [OF True le this pos(3) pos(4)] have "c + lot_size * lot_price \<le> c'" .
      moreover from pos have "0 \<le> lot_size * lot_price" by simp
      ultimately show ?thesis by linarith
    qed
  qed
qed

lemma apply_trade_ok:
  assumes "valid_trade t" "ledger_ok l"
  shows "ledger_ok (apply_trade l t)"
proof (cases "side t = BUY")
  case True
  with assms show ?thesis
    by (simp add: apply_trade_def ledger_ok_def lots_positive_def lot_prices_positive_def
        valid_trade_def)
next
  case False
  obtain r' c' q' where s: "sell_loop (trade_size t) 0 (position_queue l) = (r', c', q')"
    by (cases "sell_loop (trade_size t) 0 (position_queue l)") auto
  from assms(2) sell_loop_positive [OF s] sell_loop_prices [OF s]
  have "lots_positive q'" "lot_prices_positive q'" by (auto simp: ledger_ok_def)
  with False s show ?thesis by (simp add: apply_trade_def ledger_ok_def)
qed

lemma foldl_apply_ok:
  "list_all valid_trade ts \<Longrightarrow> ledger_ok l \<Longrightarrow> ledger_ok (foldl apply_trade l ts)"
  by (induction ts arbitrary: l) (auto simp: apply_trade_ok)

lemma ledger_init_ok: "ledger_ok ledger_init"
  by (simp add: ledger_ok_def ledger_init_def lots_positive_def lot_prices_positive_def)

lemma replay_ok: "valid_trades ts \<Longrightarrow> ledger_ok (replay ts)"
  by (simp add: replay_def valid_trades_def foldl_apply_ok ledger_init_ok)

lemma apply_trade_shares:
  "remaining_shares (position_queue (apply_trade l t)) =
     remaining_shares (position_queue l) + (if side t = BUY then trade_size t else 0)
       - matched (position_queue l) t"
proof (cases "side t = BUY")
  case True
  then show ?thesis by (simp add: apply_trade_def matched_def remaining_shares_def)
next
  case False
  obtain r' c' q' where s: "sell_loop (trade_size t) 0 (position_queue l) = (r', c', q')"
    by (cases "sell_loop (trade_size t) 0 (position_queue l)") auto
  from sell_loop_shares [OF s] False s show ?thesis
    by (simp add: apply_trade_def matched_def)
qed

lemma foldl_apply_shares:
  "remaining_shares (position_queue (foldl apply_trade l ts)) =
     remaining_shares (position_queue l) + buy_volume ts - consumed_volume l ts"
proof (induction ts arbitrary: l)
  case Nil
  then show ?case by (simp add: buy_volume_def)
next
  case (Cons t ts)
  show ?case
    using Cons.IH [of "apply_trade l t"] apply_trade_shares [of l t]
    by (simp add: buy_volume_def)
qed

lemma side_not_BUY: "side t \<noteq> BUY \<longleftrightarrow> side t = SELL"
  by (cases "side t") auto

lemma never_oversold_consumed:
  "list_all valid_trade ts \<Longrightarrow> ledger_ok l \<Longrightarrow> never_oversold l ts \<Longrightarrow>
     consumed_volume l ts = sell_volume ts"
proof (induction ts arbitrary: l)
  case Nil
  then show ?case by (simp add: sell_volume_def)
next
  case (Cons t ts)
  from Cons.prems have v: "valid_trade t" "list_all valid_trade ts" by auto
  from Cons.prems have n: "never_oversold (apply_trade l t) ts" by simp
  have ih: "consumed_volume (apply_trade l t) ts = sell_volume ts"
    by (rule Cons.IH [OF v(2) apply_trade_ok [OF v(1) Cons.prems(2)] n])
  show ?case
  proof (cases "side t = BUY")
    case True
    with ih show ?thesis by (simp add: matched_def sell_volume_def)
  next
    case False
    obtain r' c' q' where s: "sell_loop (trade_size t) 0 (position_queue l) = (r', c', q')"
      by (cases "sell_loop (trade_size t) 0 (position_queue l)") auto
    from False Cons.prems(3) have "trade_size t \<le> remaining_shares (position_queue l)" by simp
    moreover from v(1) have "0 \<le> trade_size t" by (simp add: valid_trade_def)
    ultimately have "r' = 0"
      using sell_loop_covered [OF s] Cons.prems(2) by (simp add: ledger_ok_def)
    with False s ih show ?thesis
      by (simp add: matched_def sell_volume_def side_not_BUY)
  qed
qed

lemma replay_step:
  "n < length ts \<Longrightarrow> replay (take (Suc n) ts) = apply_trade (replay (take n ts)) (ts ! n)"
  by (simp add: replay_def take_Suc_conv_app_nth)

text \<open>
  Claim C1 (FIFO conservation). For a group of valid trades \<open>ts\<close> and every point \<open>n\<close> of
  its replay (after the first \<open>n\<close> trades): every lot of the queue has a strictly positive
  size; the sum of the lot sizes is the buy volume so far minus the sell volume matched
  against lots so far; the shares held are never negative. If no sell is larger than the
  shares held when it arrives, the shares remaining at the end are the sum of the buys
  minus the sum of the sells. For the sell that arrives at point \<open>n\<close>: its accumulated
  \<^verbatim>\<open>sell_cost\<close> is not negative, and if it is larger than the shares held, it empties the
  queue, its \<^verbatim>\<open>sell_cost\<close> is exactly the cost of the lots held (the excess adds no further
  cost), and the realized profit grows by the full revenue minus that cost.
\<close>

theorem fifo_conservation:
  assumes "valid_trades ts" and "n \<le> length ts"
  shows "lots_positive (position_queue (replay (take n ts)))
    \<and> remaining_shares (position_queue (replay (take n ts)))
        = buy_volume (take n ts) - consumed_volume ledger_init (take n ts)
    \<and> 0 \<le> remaining_shares (position_queue (replay (take n ts)))
    \<and> (never_oversold ledger_init ts \<longrightarrow>
         remaining_shares (position_queue (replay ts)) = buy_volume ts - sell_volume ts)
    \<and> (n < length ts \<and> side (ts ! n) = SELL \<longrightarrow>
         (case sell_loop (trade_size (ts ! n)) 0 (position_queue (replay (take n ts))) of
            (sell_remaining, sell_cost, q') \<Rightarrow>
              0 \<le> sell_cost \<and>
              (remaining_shares (position_queue (replay (take n ts))) < trade_size (ts ! n) \<longrightarrow>
                 q' = [] \<and>
                 sell_cost = remaining_cost (position_queue (replay (take n ts))) \<and>
                 l_realized_pnl (replay (take (Suc n) ts)) =
                   l_realized_pnl (replay (take n ts))
                     + (trade_size (ts ! n) * price (ts ! n)
                        - remaining_cost (position_queue (replay (take n ts)))))))"
proof -
  let ?l = "replay (take n ts)"
  from assms(1) have vt: "valid_trades (take n ts)"
    by (simp add: valid_trades_def list_all_iff) (meson in_set_takeD)
  have ok: "ledger_ok ?l" by (rule replay_ok [OF vt])
  then have a: "lots_positive (position_queue ?l)" by (simp add: ledger_ok_def)
  have b: "remaining_shares (position_queue ?l)
        = buy_volume (take n ts) - consumed_volume ledger_init (take n ts)"
    using foldl_apply_shares [of ledger_init "take n ts"]
    by (simp add: replay_def ledger_init_def remaining_shares_def)
  have c: "0 \<le> remaining_shares (position_queue ?l)"
    by (rule lots_positive_shares [OF a])
  have d: "never_oversold ledger_init ts \<longrightarrow>
         remaining_shares (position_queue (replay ts)) = buy_volume ts - sell_volume ts"
  proof
    assume "never_oversold ledger_init ts"
    with never_oversold_consumed [of ts ledger_init] assms(1)
    have "consumed_volume ledger_init ts = sell_volume ts"
      by (simp add: valid_trades_def ledger_init_ok)
    with foldl_apply_shares [of ledger_init ts] show
      "remaining_shares (position_queue (replay ts)) = buy_volume ts - sell_volume ts"
      by (simp add: replay_def ledger_init_def remaining_shares_def)
  qed
  have e: "n < length ts \<and> side (ts ! n) = SELL \<longrightarrow>
         (case sell_loop (trade_size (ts ! n)) 0 (position_queue ?l) of
            (sell_remaining, sell_cost, q') \<Rightarrow>
              0 \<le> sell_cost \<and>
              (remaining_shares (position_queue ?l) < trade_size (ts ! n) \<longrightarrow>
                 q' = [] \<and>
                 sell_cost = remaining_cost (position_queue ?l) \<and>
                 l_realized_pnl (replay (take (Suc n) ts)) =
                   l_realized_pnl ?l
                     + (trade_size (ts ! n) * price (ts ! n)
                        - remaining_cost (position_queue ?l))))"
  proof
    assume h: "n < length ts \<and> side (ts ! n) = SELL"
    obtain r' c' q' where
      s: "sell_loop (trade_size (ts ! n)) 0 (position_queue ?l) = (r', c', q')"
      by (cases "sell_loop (trade_size (ts ! n)) 0 (position_queue ?l)") auto
    from sell_loop_cost_mono [OF s] ok have c0: "0 \<le> c'" by (simp add: ledger_ok_def)
    have over: "q' = [] \<and> c' = remaining_cost (position_queue ?l)"
      if "remaining_shares (position_queue ?l) < trade_size (ts ! n)"
      using sell_loop_oversell [OF s a that] by simp
    have step: "l_realized_pnl (replay (take (Suc n) ts)) =
        l_realized_pnl ?l + (trade_size (ts ! n) * price (ts ! n) - c')"
      using h s by (simp add: replay_step apply_trade_def)
    from c0 over step s show
      "case sell_loop (trade_size (ts ! n)) 0 (position_queue ?l) of
            (sell_remaining, sell_cost, q') \<Rightarrow>
              0 \<le> sell_cost \<and>
              (remaining_shares (position_queue ?l) < trade_size (ts ! n) \<longrightarrow>
                 q' = [] \<and>
                 sell_cost = remaining_cost (position_queue ?l) \<and>
                 l_realized_pnl (replay (take (Suc n) ts)) =
                   l_realized_pnl ?l
                     + (trade_size (ts ! n) * price (ts ! n)
                        - remaining_cost (position_queue ?l)))"
      by simp
  qed
  from a b c d e show ?thesis by blast
qed

lemmas ledger_eval =
  replay_def ledger_init_def apply_trade_def remaining_shares_def remaining_cost_def
  valid_trades_def valid_trade_def lots_positive_def buy_volume_def sell_volume_def matched_def

theorem fifo_conservation_witness:
  "valid_trades oversold_trades
   \<and> remaining_shares (position_queue (replay (take 3 oversold_trades))) = 5
   \<and> sell_loop 10 0 (position_queue (replay (take 3 oversold_trades))) = (5, 3, [])
   \<and> l_realized_pnl (replay (take 4 oversold_trades)) = 11 / 2
   \<and> never_oversold ledger_init scenario_trades
   \<and> remaining_shares (position_queue (replay scenario_trades)) = 5"
  using fifo_conservation [of oversold_trades 3] fifo_conservation [of scenario_trades 3]
  by (simp add: oversold_trades_def scenario_trades_def ledger_eval)

section \<open>Profit and loss of a group\<close>

lemma remaining_cost_append:
  "remaining_cost (q @ [(s, p)]) = remaining_cost q + s * p"
  by (simp add: remaining_cost_def)

lemma apply_trade_potential:
  "l_realized_pnl (apply_trade l t) - remaining_cost (position_queue (apply_trade l t)) =
     l_realized_pnl l - remaining_cost (position_queue l)
       + (if side t = BUY then - (trade_size t * price t) else trade_size t * price t)"
proof (cases "side t = BUY")
  case True
  then show ?thesis by (simp add: apply_trade_def remaining_cost_append)
next
  case False
  obtain r' c' q' where s: "sell_loop (trade_size t) 0 (position_queue l) = (r', c', q')"
    by (cases "sell_loop (trade_size t) 0 (position_queue l)") auto
  from sell_loop_cost [OF s] False s show ?thesis
    by (simp add: apply_trade_def)
qed

lemma foldl_apply_potential:
  "l_realized_pnl (foldl apply_trade l ts) - remaining_cost (position_queue (foldl apply_trade l ts)) =
     l_realized_pnl l - remaining_cost (position_queue l) + sell_revenue ts - buy_cost ts"
proof (induction ts arbitrary: l)
  case Nil
  then show ?case by (simp add: sell_revenue_def buy_cost_def)
next
  case (Cons t ts)
  show ?case
    using Cons.IH [of "apply_trade l t"] apply_trade_potential [of l t]
    by (cases "side t") (simp_all add: sell_revenue_def buy_cost_def)
qed

lemma replay_potential:
  "l_realized_pnl (replay ts) = sell_revenue ts - buy_cost ts + remaining_cost (position_queue (replay ts))"
  using foldl_apply_potential [of ledger_init ts]
  by (simp add: replay_def ledger_init_def remaining_cost_def)

lemma sum_filter_insort:
  "sum_list (map f (filter P (insort_key k x xs))) =
     (if P x then f x else 0) + sum_list (map f (filter P xs))"
  for f :: "'a \<Rightarrow> real"
  by (induction xs) auto

lemma sum_filter_sort:
  "sum_list (map f (filter P (sort_key k xs))) = sum_list (map f (filter P xs))"
  for f :: "'a \<Rightarrow> real"
  by (induction xs) (auto simp: sum_filter_insort)

lemma sell_revenue_sort: "sell_revenue (sort_key timestamp g) = sell_revenue g"
  by (simp add: sell_revenue_def sum_filter_sort)

lemma buy_cost_sort: "buy_cost (sort_key timestamp g) = buy_cost g"
  by (simp add: buy_cost_def sum_filter_sort)

lemma valid_trades_sort: "valid_trades (sort_key timestamp g) = valid_trades g"
  by (simp add: valid_trades_def list_all_iff)

lemma group_outcome_basic:
  "realized_pnl (fst (group_outcome api stats m a g)) = l_realized_pnl (replay (sort_key timestamp g))
   \<and> position (fst (group_outcome api stats m a g))
       = remaining_shares (position_queue (replay (sort_key timestamp g)))
   \<and> position_cost (fst (group_outcome api stats m a g))
       = remaining_cost (position_queue (replay (sort_key timestamp g)))
   \<and> total_pnl (fst (group_outcome api stats m a g))
       = realized_pnl (fst (group_outcome api stats m a g))
         + unrealized_pnl (fst (group_outcome api stats m a g))
   \<and> r_market (fst (group_outcome api stats m a g)) = m
   \<and> r_asset (fst (group_outcome api stats m a g)) = a
   \<and> r_token_type (fst (group_outcome api stats m a g)) = determine_token_type a"
  by (simp add: group_outcome_def Let_def split: prod.splits)

lemma group_outcome_dust:
  "\<not> 0.01 < remaining_shares (position_queue (replay (sort_key timestamp g))) \<Longrightarrow>
     unrealized_pnl (fst (group_outcome api stats m a g)) = 0
     \<and> r_position_status (fst (group_outcome api stats m a g)) = Open
     \<and> snd (snd (group_outcome api stats m a g)) = []"
  by (simp add: group_outcome_def Let_def)

lemma group_outcome_stats:
  "fst (group_outcome api stats m a g) = fst (group_outcome api stats_init m a g)
   \<and> snd (snd (group_outcome api stats m a g)) = snd (snd (group_outcome api stats_init m a g))"
  by (simp add: group_outcome_def valuate_def Let_def split: prod.splits)

lemma group_pnl:
  assumes "valid_trades g"
  shows "total_pnl (fst (group_outcome api stats m a g))
           = realized_pnl (fst (group_outcome api stats m a g))
             + unrealized_pnl (fst (group_outcome api stats m a g))
       \<and> (position (fst (group_outcome api stats m a g)) = 0 \<longrightarrow>
            total_pnl (fst (group_outcome api stats m a g)) = sell_revenue g - buy_cost g)"
proof -
  let ?ts = "sort_key timestamp g"
  let ?r = "fst (group_outcome api stats m a g)"
  note b = group_outcome_basic [of api stats m a g]
  have closed: "total_pnl ?r = sell_revenue g - buy_cost g" if z: "position ?r = 0"
  proof -
    from z b have z': "remaining_shares (position_queue (replay ?ts)) = 0" by simp
    from assms have "ledger_ok (replay ?ts)" by (simp add: replay_ok valid_trades_sort)
    with z' have "position_queue (replay ?ts) = []"
      by (simp add: ledger_ok_def lots_positive_zero)
    then have "remaining_cost (position_queue (replay ?ts)) = 0"
      by (simp add: remaining_cost_def)
    with replay_potential [of ?ts]
    have "l_realized_pnl (replay ?ts) = sell_revenue g - buy_cost g"
      by (simp add: sell_revenue_sort buy_cost_sort)
    moreover from z' group_outcome_dust [of g api stats m a] have "unrealized_pnl ?r = 0"
      by simp
    ultimately show ?thesis using b by simp
  qed
  from b closed show ?thesis by blast
qed

subsection \<open>From one group to the loop over the groups\<close>

lemma update_set: "(k, r) \<in> set (AList.update k' r' al) \<Longrightarrow> (k, r) \<in> set al \<or> (k, r) = (k', r')"
  by (induction al) (auto split: if_splits)

lemma process_group_results:
  "(k, r) \<in> set (fst (foldl (process_group api) acc gs)) \<Longrightarrow>
     (k, r) \<in> set (fst acc) \<or>
     (\<exists>key g. (key, g) \<in> set gs \<and> r = fst (group_outcome api stats_init (fst key) (snd key) g))"
proof (induction gs arbitrary: acc)
  case Nil
  then show ?case by simp
next
  case (Cons x gs)
  obtain results stats positions where acc: "acc = (results, stats, positions)"
    by (cases acc) auto
  obtain m a g where x: "x = ((m, a), g)" by (cases x) auto
  obtain res stats' new where o: "group_outcome api stats m a g = (res, stats', new)"
    by (cases "group_outcome api stats m a g") auto
  have step: "process_group api acc x =
      (AList.update (m @ '':'' @ a) res results, stats', positions @ new)"
    by (simp add: process_group_def acc x o)
  from Cons.prems have "(k, r) \<in> set (fst (foldl (process_group api) (process_group api acc x) gs))"
    by simp
  from Cons.IH [OF this] show ?case
  proof
    assume "(k, r) \<in> set (fst (process_group api acc x))"
    with step have "(k, r) \<in> set results \<or> r = res"
      using update_set [of k r "m @ '':'' @ a" res results] by auto
    moreover have "res = fst (group_outcome api stats_init m a g)"
      using group_outcome_stats [of api stats m a g] o by simp
    ultimately show ?thesis using acc x by auto
  next
    assume "\<exists>key g. (key, g) \<in> set gs \<and> r = fst (group_outcome api stats_init (fst key) (snd key) g)"
    then show ?thesis by auto
  qed
qed

lemma process_group_positions:
  "snd (snd (foldl (process_group api) acc gs)) =
     snd (snd acc) @
     concat (map (\<lambda>(key, g). snd (snd (group_outcome api stats_init (fst key) (snd key) g))) gs)"
proof (induction gs arbitrary: acc)
  case Nil
  then show ?case by simp
next
  case (Cons x gs)
  obtain results stats positions where acc: "acc = (results, stats, positions)"
    by (cases acc) auto
  obtain m a g where x: "x = ((m, a), g)" by (cases x) auto
  obtain res stats' new where o: "group_outcome api stats m a g = (res, stats', new)"
    by (cases "group_outcome api stats m a g") auto
  have step: "process_group api acc x =
      (AList.update (m @ '':'' @ a) res results, stats', positions @ new)"
    by (simp add: process_group_def acc x o)
  have "new = snd (snd (group_outcome api stats_init m a g))"
    using group_outcome_stats [of api stats m a g] o by simp
  with Cons.IH [of "process_group api acc x"] step show ?case
    by (simp add: acc x)
qed

lemma groupby_rows: "(key, g) \<in> set (groupby df) \<Longrightarrow> g = group_rows df key \<and> key \<in> set (map group_key df)"
  by (auto simp: groupby_def)

lemma valid_group_rows: "valid_trades df \<Longrightarrow> valid_trades (group_rows df key)"
  by (auto simp: valid_trades_def group_rows_def list_all_iff)

lemma emitted_result:
  assumes "(k, r) \<in> set (fst (calculate_fifo_pnl_with_resolution api df))"
  shows "r = fst (group_outcome api stats_init (r_market r) (r_asset r)
                   (group_rows df (r_market r, r_asset r)))
         \<and> (r_market r, r_asset r) \<in> set (map group_key df)"
proof -
  from process_group_results [of k r api "([], stats_init, [])" "groupby df"] assms
  obtain key g where kg: "(key, g) \<in> set (groupby df)"
    and r: "r = fst (group_outcome api stats_init (fst key) (snd key) g)"
    by (auto simp: calculate_fifo_pnl_with_resolution_def)
  from r group_outcome_basic [of api stats_init "fst key" "snd key" g]
  have "r_market r = fst key" "r_asset r = snd key" by simp_all
  with kg r groupby_rows [OF kg] show ?thesis by (cases key) auto
qed

text \<open>
  Claim C3 (PnL identity). Every \<^verbatim>\<open>MarketResult\<close> that the ledger emits for valid trades
  has \<open>total_pnl = realized_pnl + unrealized_pnl\<close>; and when its group is fully closed
  (\<open>position = 0\<close>), \<open>total_pnl\<close> is the sum of the sell revenues of the group minus the
  sum of its buy costs.
\<close>

theorem pnl_identity:
  assumes "valid_trades df"
    and "(k, r) \<in> set (fst (calculate_fifo_pnl_with_resolution api df))"
  shows "total_pnl r = realized_pnl r + unrealized_pnl r
       \<and> (position r = 0 \<longrightarrow>
            total_pnl r = sell_revenue (group_rows df (r_market r, r_asset r))
                          - buy_cost (group_rows df (r_market r, r_asset r)))"
proof -
  let ?g = "group_rows df (r_market r, r_asset r)"
  from emitted_result [OF assms(2)]
  have r: "fst (group_outcome api stats_init (r_market r) (r_asset r) ?g) = r" by simp
  have "valid_trades ?g" by (rule valid_group_rows [OF assms(1)])
  from group_pnl [OF this, where api = api and stats = stats_init
      and m = "r_market r" and a = "r_asset r"]
  show ?thesis unfolding r .
qed

lemmas group_eval =
  calculate_fifo_pnl_with_resolution_def groupby_def group_rows_def group_key_def
  process_group_def group_outcome_def valuate_def fetch_market_resolution_def
  determine_token_type_def upper_def upper_char_def position_won_def stats_init_def Let_def

lemma closed_trades_results:
  "fst (calculate_fifo_pnl_with_resolution api_unresolved closed_trades)
     = [(''0xm1:101'', closed_result)]"
  by (simp add: closed_trades_def closed_result_def api_unresolved_def group_eval ledger_eval)

lemma closed_trades_positions:
  "snd (snd (calculate_fifo_pnl_with_resolution api_unresolved closed_trades)) = []"
  by (simp add: closed_trades_def closed_result_def api_unresolved_def group_eval ledger_eval)

theorem pnl_identity_witness:
  "valid_trades closed_trades
   \<and> (''0xm1:101'', closed_result)
       \<in> set (fst (calculate_fifo_pnl_with_resolution api_unresolved closed_trades))
   \<and> position closed_result = 0
   \<and> total_pnl closed_result = 10 * 0.5 - 10 * 0.4"
  using pnl_identity [of closed_trades "''0xm1:101''" closed_result api_unresolved]
  by (simp add: closed_trades_results)
     (simp add: closed_trades_def closed_result_def ledger_eval)

section \<open>Valuation and open positions\<close>



lemma group_positions:
  "snd (snd (group_outcome api stats m a g)) = emitted_position (fst (group_outcome api stats m a g)) g"
proof (cases "0.01 < remaining_shares (position_queue (replay (sort_key timestamp g)))")
  case False
  with group_outcome_dust [OF False, of api stats m a] group_outcome_basic [of api stats m a g]
  show ?thesis by (simp add: emitted_position_def)
next
  case True
  then show ?thesis
    by (simp add: group_outcome_def emitted_position_def Let_def split: prod.splits)
qed







text \<open>
  Claim C6, as the code has it. The positions that the ledger emits are, group by group
  in the order of the groups, \<open>emitted_position\<close>: one entry with the claimed fields for
  a group whose remaining shares exceed 0.01 and whose status is open, and none for any
  other group; so none for a status won, lost or unknown, and none for a group of at
  most 0.01 remaining shares, whose status is open without any valuation.
\<close>

theorem current_positions_emitted:
  "snd (snd (calculate_fifo_pnl_with_resolution api df)) =
     concat (map (\<lambda>(key, g).
         emitted_position (fst (group_outcome api stats_init (fst key) (snd key) g)) g)
       (groupby df))"
  by (simp add: calculate_fifo_pnl_with_resolution_def process_group_positions group_positions)

text \<open>
  The claim as stated fails on a group that is sold completely: its status is open and no
  position is emitted for it.
\<close>

theorem current_positions_counterexample:
  "map (r_position_status \<circ> snd)
       (fst (calculate_fifo_pnl_with_resolution api_unresolved closed_trades)) = [Open]
   \<and> snd (snd (calculate_fifo_pnl_with_resolution api_unresolved closed_trades)) = []"
  by (simp add: closed_trades_results closed_trades_positions closed_result_def)

section \<open>Properties of the recommender\<close>

lemma sizing_fixed:
  "avg_trade > 0.4 * portfolio_balance \<Longrightarrow>
     sizing_of avg_trade win_rate trader_capital portfolio_balance =
       (Fixed_amount, max 1 (portfolio_balance * (0.05 + max 0 (win_rate - 0.5) * 0.4)),
        [Reason_fixed_sizing avg_trade])"
  by (simp add: sizing_of_def size_pct_def max_def mult.commute)

lemma clamp_fixed: "1 \<le> sz \<Longrightarrow> fst (clamp_size ot Fixed_amount sz) = sz"
  by (simp add: clamp_size_def)

text \<open>
  Claim C8 (fixed amount). Whenever \<open>avg_trade > 0.4 * portfolio_balance\<close>, the
  recommendation has the sizing method \<open>fixed_amount\<close> and the suggested size
  \<open>max 1 (portfolio_balance * (0.05 + max 0 (win_rate - 0.5) * 0.4))\<close>; for
  \<open>avg_trade = 2000\<close>, \<open>portfolio_balance = 150\<close> and \<open>win_rate = 0.65\<close> that is 16.5.
\<close>

theorem fixed_amount_sizing:
  assumes "get_or (i_avg_trade metrics) 50 > 0.4 * portfolio_balance"
  shows "rec_sizing_method (recommend_copy_strategy metrics portfolio_balance) = Fixed_amount
    \<and> suggested_size (recommend_copy_strategy metrics portfolio_balance)
        = max 1 (portfolio_balance * (0.05 + max 0 (get_or (i_win_rate metrics) 0.5 - 0.5) * 0.4))
    \<and> (i_avg_trade metrics = Some 2000 \<and> portfolio_balance = 150
         \<and> i_win_rate metrics = Some 0.65 \<longrightarrow>
        suggested_size (recommend_copy_strategy metrics portfolio_balance) = 16.5)"
proof -
  let ?sz = "max 1 (portfolio_balance * (0.05 + max 0 (get_or (i_win_rate metrics) 0.5 - 0.5) * 0.4))"
  have c: "fst (clamp_size ot Fixed_amount ?sz) = ?sz" for ot
    by (rule clamp_fixed) simp
  have m: "rec_sizing_method (recommend_copy_strategy metrics portfolio_balance) = Fixed_amount"
    using assms
    by (simp add: recommend_copy_strategy_def sizing_fixed Let_def split: prod.splits)
  have s: "suggested_size (recommend_copy_strategy metrics portfolio_balance) = ?sz"
    using assms c
    by (auto simp add: recommend_copy_strategy_def sizing_fixed Let_def split: prod.splits)
       (metis fst_conv)
  have "?sz = 16.5" if "portfolio_balance = 150" and "i_win_rate metrics = Some 0.65"
    using that by (simp add: get_or_def)
  with m s show ?thesis by metis
qed

theorem fixed_amount_sizing_witness:
  "get_or (i_avg_trade scenario_metrics) 50 > 0.4 * 150
   \<and> i_avg_trade scenario_metrics = Some 2000 \<and> i_win_rate scenario_metrics = Some 0.65
   \<and> rec_sizing_method (recommend_copy_strategy scenario_metrics 150) = Fixed_amount
   \<and> suggested_size (recommend_copy_strategy scenario_metrics 150) = 16.5"
  using fixed_amount_sizing [where metrics = scenario_metrics and portfolio_balance = 150]
  by (simp add: scenario_metrics_def get_or_def)


lemma round_half_even_near: "\<bar>of_int (round_half_even x) - x\<bar> \<le> 1 / 2"
proof -
  define f where "f = \<lfloor>x\<rfloor>"
  have b: "of_int f \<le> x" "x < of_int f + 1" unfolding f_def by linarith+
  have "round_half_even x = f \<and> x - of_int f \<le> 1 / 2
      \<or> round_half_even x = f + 1 \<and> 1 / 2 \<le> x - of_int f"
    unfolding round_half_even_def Let_def f_def [symmetric] by auto
  with b show ?thesis by auto
qed

lemma py_round_2_near: "\<bar>py_round x 2 - x\<bar> \<le> 0.005"
proof -
  have e: "py_round x 2 - x = (of_int (round_half_even (x * 100)) - x * 100) / 100"
    by (simp add: py_round_def field_simps)
  have "\<bar>py_round x 2 - x\<bar> = \<bar>of_int (round_half_even (x * 100)) - x * 100\<bar> / 100"
    unfolding e by simp
  with round_half_even_near [of "x * 100"] show ?thesis by simp
qed

lemma recommend_compounding:
  "compounding_recommended (recommend_copy_strategy metrics portfolio_balance)
     = fst (compounding_of (get_or (i_win_rate metrics) 0.5) (get_or (i_sharpe metrics) 0)
              portfolio_balance)
   \<and> compounding (recommend_copy_strategy metrics portfolio_balance)
     = fst (snd (compounding_of (get_or (i_win_rate metrics) 0.5) (get_or (i_sharpe metrics) 0)
              portfolio_balance))"
  by (simp add: recommend_copy_strategy_def Let_def split: prod.splits)

text \<open>
  Claim C9 (compounding overlay). The overlay is recommended exactly when
  \<open>win_rate \<ge> 0.60\<close> and \<open>sharpe > 0\<close>. Then the parameters follow the tier of the win
  rate: from 0.75 a base of 5 percent of the portfolio, 60 percent reinvested, a tier
  every 15 dollars, 30 percent more per tier, at most 5 times; from 0.65 the values 4
  percent, 50 percent, 20 dollars, 25 percent, 4 times; otherwise 3 percent, 40 percent,
  25 dollars, 20 percent, 3 times; the drawdown thresholds are 0.20, 0.40 and 0.60 in
  every tier (\<open>tier_params\<close>). The base size is written as a dollar amount rounded to
  cents, at most half a cent from the percentage of the portfolio. When the overlay is
  not recommended there are no parameters.
\<close>

theorem compounding_overlay:
  fixes metrics :: metrics_input and portfolio_balance :: real
  defines "win_rate \<equiv> get_or (i_win_rate metrics) 0.5"
    and "sharpe \<equiv> get_or (i_sharpe metrics) 0"
    and "r \<equiv> recommend_copy_strategy metrics portfolio_balance"
  shows "(compounding_recommended r \<longleftrightarrow> win_rate \<ge> 0.60 \<and> sharpe > 0)
    \<and> (win_rate \<ge> 0.75 \<and> sharpe > 0 \<longrightarrow>
         compounding r = Some (tier_params (py_round (portfolio_balance * 0.05) 2) 0.60 15 0.30 5))
    \<and> (0.65 \<le> win_rate \<and> win_rate < 0.75 \<and> sharpe > 0 \<longrightarrow>
         compounding r = Some (tier_params (py_round (portfolio_balance * 0.04) 2) 0.50 20 0.25 4))
    \<and> (0.60 \<le> win_rate \<and> win_rate < 0.65 \<and> sharpe > 0 \<longrightarrow>
         compounding r = Some (tier_params (py_round (portfolio_balance * 0.03) 2) 0.40 25 0.20 3))
    \<and> (\<not> (win_rate \<ge> 0.60 \<and> sharpe > 0) \<longrightarrow> compounding r = None)
    \<and> \<bar>py_round (portfolio_balance * 0.05) 2 - portfolio_balance * 0.05\<bar> \<le> 0.005
    \<and> \<bar>py_round (portfolio_balance * 0.04) 2 - portfolio_balance * 0.04\<bar> \<le> 0.005
    \<and> \<bar>py_round (portfolio_balance * 0.03) 2 - portfolio_balance * 0.03\<bar> \<le> 0.005"
proof -
  note rc = recommend_compounding [of metrics portfolio_balance, folded win_rate_def sharpe_def r_def]
  have a: "compounding_recommended r \<longleftrightarrow> win_rate \<ge> 0.60 \<and> sharpe > 0"
    using rc by (simp add: compounding_of_def Let_def split: prod.splits)
  have b: "compounding r = Some (tier_params (py_round (portfolio_balance * 0.05) 2) 0.60 15 0.30 5)"
    if "win_rate \<ge> 0.75 \<and> sharpe > 0"
    using rc that by (simp add: compounding_of_def compounding_tier_def tier_params_def Let_def)
  have c: "compounding r = Some (tier_params (py_round (portfolio_balance * 0.04) 2) 0.50 20 0.25 4)"
    if "0.65 \<le> win_rate \<and> win_rate < 0.75 \<and> sharpe > 0"
    using rc that by (simp add: compounding_of_def compounding_tier_def tier_params_def Let_def)
  have d: "compounding r = Some (tier_params (py_round (portfolio_balance * 0.03) 2) 0.40 25 0.20 3)"
    if "0.60 \<le> win_rate \<and> win_rate < 0.65 \<and> sharpe > 0"
    using rc that by (simp add: compounding_of_def compounding_tier_def tier_params_def Let_def)
  have e: "compounding r = None" if "\<not> (win_rate \<ge> 0.60 \<and> sharpe > 0)"
    using rc that by (auto simp add: compounding_of_def)
  from a b c d e py_round_2_near show ?thesis by blast
qed

lemma py_round_2_eval:
  "py_round (15 / 2) 2 = 15 / 2" "py_round 6 2 = 6" "py_round (9 / 2) 2 = 9 / 2"
  by (simp_all add: py_round_def round_half_even_def)

theorem compounding_overlay_witness:
  "compounding (recommend_copy_strategy (scenario_metrics\<lparr>i_win_rate := Some 0.8\<rparr>) 150)
     = Some (tier_params 7.5 0.60 15 0.30 5)
   \<and> compounding (recommend_copy_strategy scenario_metrics 150)
     = Some (tier_params 6 0.50 20 0.25 4)
   \<and> compounding (recommend_copy_strategy (scenario_metrics\<lparr>i_win_rate := Some 0.6\<rparr>) 150)
     = Some (tier_params 4.5 0.40 25 0.20 3)
   \<and> compounding (recommend_copy_strategy (scenario_metrics\<lparr>i_win_rate := Some 0.59\<rparr>) 150)
     = None
   \<and> compounding_recommended (recommend_copy_strategy scenario_metrics 150)
   \<and> \<not> compounding_recommended
         (recommend_copy_strategy (scenario_metrics\<lparr>i_win_rate := Some 0.59\<rparr>) 150)"
  using compounding_overlay [of "scenario_metrics\<lparr>i_win_rate := Some 0.8\<rparr>" 150]
    compounding_overlay [of scenario_metrics 150]
    compounding_overlay [of "scenario_metrics\<lparr>i_win_rate := Some 0.6\<rparr>" 150]
    compounding_overlay [of "scenario_metrics\<lparr>i_win_rate := Some 0.59\<rparr>" 150]
  by (simp add: scenario_metrics_def get_or_def py_round_2_eval)

section \<open>Properties of the aggregator\<close>

lemma exp_0693: "exp (693 / 1000 :: real) < 2"
proof -
  obtain t :: real where t: "\<bar>t\<bar> \<le> \<bar>693 / 1000\<bar>"
    and e: "exp (693 / 1000 :: real)
              = (\<Sum>m<7. ((693 / 1000) ^ m) / fact m) + (exp t / fact 7) * (693 / 1000) ^ 7"
    using Maclaurin_exp_le [of "693 / 1000" 7] by blast
  define S :: real where "S = (\<Sum>m<7. ((693 / 1000) ^ m) / fact m)"
  define R :: real where "R = (exp t / fact 7) * (693 / 1000) ^ 7"
  from t have "t \<le> 1" by simp
  then have "exp t \<le> exp 1" by simp
  with exp_le have t3: "exp t \<le> 3" by linarith
  have s: "S < 19997 / 10000"
    unfolding S_def by (simp add: numeral_eq_Suc lessThan_Suc fact_numeral)
  have "R \<le> (3 / fact 7) * (693 / 1000) ^ 7"
    unfolding R_def using t3 by (simp add: divide_right_mono mult_right_mono)
  also have "\<dots> < 1 / 10000" by (simp add: fact_numeral power_divide)
  finally have r: "R < 1 / 10000" .
  from e have "exp (693 / 1000 :: real) = S + R" by (simp only: S_def R_def)
  with s r show ?thesis by linarith
qed

lemma exp_minus_0693: "1 / 2 < exp (- 0.693 :: real)"
proof -
  have "exp (- 0.693 :: real) = 1 / exp (693 / 1000)"
    by (simp add: exp_minus inverse_eq_divide)
  moreover have "1 / 2 < 1 / exp (693 / 1000 :: real)"
    using exp_0693 by (simp add: field_simps)
  ultimately show ?thesis by simp
qed

lemma sqrt_4_25: "sqrt (4 / 25) = 2 / 5"
  by (rule real_sqrt_unique) (simp_all add: power2_eq_square)


lemmas trader_eval =
  one_win_trader_def flat_trader_def flat_markets_def round_trip_def round_trip_result_def

lemma one_win_market_pnl:
  "market_pnl api one_win_trader =
     [round_trip_result ''0xm1'' 1 9, round_trip_result ''0xm2'' 0 10,
      round_trip_result ''0xm3'' 0 10, round_trip_result ''0xm4'' 0 10,
      round_trip_result ''0xm5'' 0 10]"
  by (simp add: market_pnl_def trader_eval group_eval ledger_eval)

lemma flat_market_pnl:
  "market_pnl api flat_trader =
     [round_trip_result ''0xm1'' 0 10, round_trip_result ''0xm2'' 0 10,
      round_trip_result ''0xm3'' 0 10, round_trip_result ''0xm4'' 0 10,
      round_trip_result ''0xm5'' 0 10]"
  by (simp add: market_pnl_def trader_eval group_eval ledger_eval)


lemmas filter_eval =
  MIN_TRADES_def MIN_MARKETS_def MAX_AVG_BUY_PRICE_def MAX_AVG_TRADE_SIZE_def MIN_WIN_RATE_def
  MIN_ROI_def MIN_SCORE_def RECENCY_HALF_LIFE_DAYS_def unique_markets_def avg_buy_price_of_def
  buys_of_def trade_values_def capital_deployed_of_def mean_def

lemma one_win_filters:
  "length one_win_trader = 10" "unique_markets one_win_trader = 5"
  "avg_buy_price_of one_win_trader = 12 / 25" "mean (trade_values one_win_trader) = 49 / 10"
  "capital_deployed_of one_win_trader = 24"
  by (simp_all add: trader_eval filter_eval)

lemma flat_filters:
  "length flat_trader = 10" "unique_markets flat_trader = 5"
  "avg_buy_price_of flat_trader = 1 / 2" "mean (trade_values flat_trader) = 5"
  "capital_deployed_of flat_trader = 25"
  by (simp_all add: trader_eval filter_eval)

lemma one_win_rates:
  "total_decided (market_pnl api one_win_trader) = 1"
  "win_rate_of (market_pnl api one_win_trader) = 1"
  "roi_of (market_pnl api one_win_trader) one_win_trader = 1 / 24"
  by (simp_all add: one_win_market_pnl one_win_filters total_decided_def win_rate_of_def
      roi_of_def profitable_markets_of_def losing_markets_of_def round_trip_result_def)

lemma one_win_returns:
  "map total_pnl (market_pnl api one_win_trader) = [1, 0, 0, 0, 0]"
  "market_returns (market_pnl api one_win_trader) = [1, 0, 0, 0, 0]"
  by (simp_all add: one_win_market_pnl market_returns_def round_trip_result_def)

lemma one_win_mean_std: "mean [1, 0, 0, 0, 0] = 1 / 5" "std [1, 0, 0, 0, 0] = 2 / 5"
proof -
  show m: "mean [1, 0, 0, 0, 0] = 1 / 5" by (simp add: mean_def)
  have "std [1, 0, 0, 0, 0] = sqrt (4 / 25)"
    by (simp add: std_def m) (simp add: mean_def power2_eq_square)
  then show "std [1, 0, 0, 0, 0] = 2 / 5" by (simp only: sqrt_4_25)
qed

lemma one_win_sharpe: "sharpe_of (market_pnl api one_win_trader) = 1 / 2"
  by (simp add: sharpe_of_def one_win_returns one_win_mean_std)

lemma one_win_median: "median (trade_values one_win_trader) = 5"
  by (simp add: median_def trade_values_def trader_eval)

lemma one_win_last: "list_max (map timestamp one_win_trader) = 349200"
  by (simp add: list_max_def trader_eval)

lemma one_win_score:
  "score_of api now one_win_trader =
     (25 / 24 + 25 + 3 / 2 + log 10 11 * (9 / 4) + 60 / 11) * recency_of now one_win_trader"
  by (simp add: score_of_def composite_score_def one_win_rates one_win_sharpe one_win_median
      one_win_filters)

lemma one_win_score_bound:
  assumes "1 / 2 \<le> recency_of now one_win_trader"
  shows "\<not> score_of api now one_win_trader < MIN_SCORE"
proof -
  define L :: real where "L = log 10 11"
  have "0 \<le> L" unfolding L_def by simp
  then have "32 \<le> 25 / 24 + 25 + 3 / 2 + L * (9 / 4) + 60 / (11 :: real)" by linarith
  then have "32 \<le> 25 / 24 + 25 + 3 / 2 + log 10 11 * (9 / 4) + 60 / (11 :: real)"
    unfolding L_def .
  with assms
  have "32 * (1 / 2) \<le> (25 / 24 + 25 + 3 / 2 + log 10 11 * (9 / 4) + 60 / 11)
      * recency_of now one_win_trader"
    by (intro mult_mono) simp_all
  then show ?thesis by (simp add: one_win_score MIN_SCORE_def)
qed

lemma one_win_analyzed:
  assumes "1 / 2 \<le> recency_of now one_win_trader"
  shows "analyze_normalized address api now one_win_trader
           = Some (metrics_of address api now one_win_trader)"
  using one_win_score_bound [OF assms, of api]
  by (simp add: analyze_normalized_def one_win_filters one_win_rates effective_min_roi_def
      MIN_TRADES_def MIN_MARKETS_def MAX_AVG_BUY_PRICE_def MAX_AVG_TRADE_SIZE_def
      MIN_WIN_RATE_def)

lemma one_win_recency_now: "recency_of 349200 one_win_trader = 1"
  by (simp add: recency_of_def days_since_active_def one_win_last)

lemma one_win_recency_later: "recency_of 2941200 one_win_trader = exp (- 0.693)"
proof -
  have "days_since_active 2941200 one_win_trader = 30"
    by (simp add: days_since_active_def one_win_last)
  then have "recency_of 2941200 one_win_trader = max (exp (- 0.693)) 0.05"
    by (simp add: recency_of_def RECENCY_HALF_LIFE_DAYS_def)
  with exp_minus_0693 show ?thesis by (simp add: max_def)
qed


lemma analyze_normalized_Some:
  "analyze_normalized address api now df = Some m \<Longrightarrow> m = metrics_of address api now df"
  by (simp add: analyze_normalized_def split: if_splits)

text \<open>
  Claim C4 (composite score). For a trader that passes every filter, the composite score
  is the recency weight times the weighted sum of the claim, with the trade count the
  number of normalized trades and the median taken over \<open>size * price\<close> of all of them.
  This is the value that the minimum-score filter tests; the returned dictionary holds it
  rounded to two decimals.
\<close>

theorem composite_score_formula:
  assumes "analyze_normalized address api now df = Some m"
  shows "m_score m =
           m_recency m *
             (0.25 * min (m_roi_pct m) 200
              + 0.25 * (m_win_rate m * 100)
              + 0.20 * (max (m_sharpe m) (- 2) * 15)
              + 0.15 * (log 10 (real (m_trades m) + 1) * 15)
              + 0.15 * (100 / (m_median_trade m + 50) * 20))
    \<and> m_roi_pct m = roi_of (market_pnl api df) df * 100
    \<and> m_trades m = length df
    \<and> m_median_trade m = median (map (\<lambda>t. trade_size t * price t) df)
    \<and> MIN_SCORE \<le> m_score m
    \<and> m_score (round_metrics m) = py_round (m_score m) 2"
proof -
  from assms have m: "m = metrics_of address api now df" by (rule analyze_normalized_Some)
  from assms have "\<not> score_of api now df < MIN_SCORE"
    by (simp add: analyze_normalized_def split: if_splits)
  then have "MIN_SCORE \<le> m_score m" by (simp add: m metrics_of_def Let_def)
  moreover have "real (length df + 1) = real (length df) + 1" by simp
  ultimately show ?thesis
    by (simp add: m metrics_of_def Let_def score_of_def composite_score_def trade_values_def
        round_metrics_def algebra_simps)
qed

theorem composite_score_formula_witness:
  "analyze_normalized ''0xabc'' api_unresolved 349200 one_win_trader
     = Some (metrics_of ''0xabc'' api_unresolved 349200 one_win_trader)
   \<and> m_score (metrics_of ''0xabc'' api_unresolved 349200 one_win_trader) =
       1 * (0.25 * min (25 / 6) 200 + 0.25 * (1 * 100) + 0.20 * (max (1 / 2) (- 2) * 15)
            + 0.15 * (log 10 (real 10 + 1) * 15) + 0.15 * (100 / (5 + 50) * 20))"
proof -
  let ?M = "metrics_of ''0xabc'' api_unresolved 349200 one_win_trader"
  have a: "analyze_normalized ''0xabc'' api_unresolved 349200 one_win_trader = Some ?M"
    by (rule one_win_analyzed) (simp add: one_win_recency_now)
  have fields: "m_recency ?M = 1" "m_roi_pct ?M = 25 / 6" "m_win_rate ?M = 1"
    "m_sharpe ?M = 1 / 2" "m_trades ?M = 10" "m_median_trade ?M = 5"
    by (simp_all add: metrics_of_def Let_def one_win_recency_now one_win_rates one_win_sharpe
        one_win_filters one_win_median)
  from composite_score_formula [OF a]
  have "m_score ?M =
      m_recency ?M * (0.25 * min (m_roi_pct ?M) 200 + 0.25 * (m_win_rate ?M * 100)
        + 0.20 * (max (m_sharpe ?M) (- 2) * 15)
        + 0.15 * (log 10 (real (m_trades ?M) + 1) * 15)
        + 0.15 * (100 / (m_median_trade ?M + 50) * 20))"
    by (rule conjunct1)
  then have "m_score ?M =
       1 * (0.25 * min (25 / 6) 200 + 0.25 * (1 * 100) + 0.20 * (max (1 / 2) (- 2) * 15)
            + 0.15 * (log 10 (real 10 + 1) * 15) + 0.15 * (100 / (5 + 50) * 20))"
    unfolding fields .
  with a show ?thesis by (intro conjI)
qed






text \<open>
  Claim C7, as the code has it. The recency weight is
  \<open>max (exp (- 0.693 * days_inactive / 30)) 0.05\<close>, the decay constant being the decimal
  0.693 and not the logarithm of 2, with \<open>days_inactive\<close> the time from the last trade to
  \<open>now\<close> in days.
\<close>

theorem recency_weight:
  assumes "analyze_normalized address api now df = Some m"
  shows "m_recency m = max (exp (- 0.693 * m_days_inactive m / 30)) 0.05
    \<and> m_days_inactive m = (now - list_max (map timestamp df)) / 86400"
proof -
  from assms have m: "m = metrics_of address api now df" by (rule analyze_normalized_Some)
  show ?thesis
    by (simp add: m metrics_of_def Let_def recency_of_def days_since_active_def
        RECENCY_HALF_LIFE_DAYS_def)
qed

theorem recency_weight_witness:
  "analyze_normalized ''0xabc'' api_unresolved 2941200 one_win_trader
     = Some (metrics_of ''0xabc'' api_unresolved 2941200 one_win_trader)
   \<and> m_days_inactive (metrics_of ''0xabc'' api_unresolved 2941200 one_win_trader) = 30
   \<and> m_recency (metrics_of ''0xabc'' api_unresolved 2941200 one_win_trader)
       = max (exp (- 0.693 * 30 / 30)) 0.05"
proof -
  have "(1 :: real) / 2 \<le> exp (- 0.693)" using exp_minus_0693 by simp
  then have a: "analyze_normalized ''0xabc'' api_unresolved 2941200 one_win_trader
     = Some (metrics_of ''0xabc'' api_unresolved 2941200 one_win_trader)"
    by (intro one_win_analyzed) (simp add: one_win_recency_later)
  have d: "m_days_inactive (metrics_of ''0xabc'' api_unresolved 2941200 one_win_trader) = 30"
    by (simp add: metrics_of_def Let_def days_since_active_def one_win_last)
  from recency_weight [OF a]
  have "m_recency (metrics_of ''0xabc'' api_unresolved 2941200 one_win_trader)
      = max (exp (- 0.693 * 30 / 30)) 0.05"
    unfolding d by (rule conjunct1)
  with a d show ?thesis by (intro conjI)
qed

text \<open>
  The claim as stated fails thirty days after the last trade: the claimed weight is 1/2,
  the weight of the code is \<open>exp (- 0.693)\<close>, which is larger.
\<close>

theorem recency_counterexample:
  "days_since_active 2941200 one_win_trader = 30
   \<and> map_option m_recency (analyze_normalized ''0xabc'' api_unresolved 2941200 one_win_trader)
       = Some (exp (- 0.693))
   \<and> max (exp (- ln 2 * 30 / 30)) 0.05 < exp (- 0.693 :: real)"
proof -
  have h: "(1 :: real) / 2 \<le> exp (- 0.693)" using exp_minus_0693 by simp
  then have a: "analyze_normalized ''0xabc'' api_unresolved 2941200 one_win_trader
     = Some (metrics_of ''0xabc'' api_unresolved 2941200 one_win_trader)"
    by (intro one_win_analyzed) (simp add: one_win_recency_later)
  have d: "days_since_active 2941200 one_win_trader = 30"
    by (simp add: days_since_active_def one_win_last)
  have r: "m_recency (metrics_of ''0xabc'' api_unresolved 2941200 one_win_trader) = exp (- 0.693)"
    by (simp add: metrics_of_def Let_def one_win_recency_later)
  have "exp (- ln 2 * 30 / 30) = (1 :: real) / 2" by (simp add: exp_minus inverse_eq_divide)
  then have c: "max (exp (- ln 2 * 30 / 30)) 0.05 = (1 :: real) / 2" by simp
  from exp_minus_0693 have "max (exp (- ln 2 * 30 / 30)) 0.05 < exp (- 0.693 :: real)"
    unfolding c .
  with d show ?thesis by (simp add: a r)
qed

text \<open>
  Claim C10 (no decided group). When every emitted result of a trader has
  \<open>total_pnl = 0\<close>, no group is profitable and none is losing, and \<^verbatim>\<open>analyze_trader\<close>
  returns \<^verbatim>\<open>None\<close>, whatever the other filters say.
\<close>

theorem no_decided_group_rejected:
  assumes "list_all (\<lambda>r. total_pnl r = 0)
             (market_pnl api (List.map_filter normalize_trade trades))"
  shows "profitable_markets_of (market_pnl api (List.map_filter normalize_trade trades)) = 0
    \<and> losing_markets_of (market_pnl api (List.map_filter normalize_trade trades)) = 0
    \<and> analyze_trader address api now trades = None"
proof -
  let ?rs = "market_pnl api (List.map_filter normalize_trade trades)"
  from assms have p: "filter (\<lambda>m. total_pnl m > 0) ?rs = []"
    and l: "filter (\<lambda>m. total_pnl m < 0) ?rs = []"
    by (auto simp: list_all_iff filter_empty_conv)
  then have "total_decided ?rs = 0"
    by (simp add: total_decided_def profitable_markets_of_def losing_markets_of_def)
  with p l show ?thesis
    by (simp add: analyze_trader_def analyze_normalized_def profitable_markets_of_def
        losing_markets_of_def)
qed

lemma normalize_trade_valid: "normalize_trade raw = Some t \<Longrightarrow> valid_trade t"
  by (auto simp: normalize_trade_def valid_trade_def str_or_unknown_def
      split: option.splits if_splits)

lemma normalized_valid: "valid_trades (List.map_filter normalize_trade trades)"
  by (auto simp: valid_trades_def list_all_iff List.map_filter_def normalize_trade_valid)

lemma normalize_raw_of: "valid_trade t \<Longrightarrow> normalize_trade (raw_of t) = Some t"
  by (cases "side t")
     (simp_all add: normalize_trade_def raw_of_def valid_trade_def str_or_unknown_def upper_def
        upper_char_def)

lemma normalize_flat: "List.map_filter normalize_trade (map raw_of flat_trader) = flat_trader"
proof -
  have "List.map_filter normalize_trade (map raw_of ts) = ts"
    if "list_all valid_trade ts" for ts
    using that by (induction ts) (simp_all add: normalize_raw_of)
  moreover have "list_all valid_trade flat_trader" by (simp add: trader_eval valid_trade_def)
  ultimately show ?thesis by simp
qed

theorem no_decided_group_rejected_witness:
  "List.map_filter normalize_trade (map raw_of flat_trader) = flat_trader
   \<and> list_all (\<lambda>r. total_pnl r = 0) (market_pnl api_unresolved flat_trader)
   \<and> MIN_TRADES \<le> length flat_trader \<and> MIN_MARKETS \<le> unique_markets flat_trader
   \<and> avg_buy_price_of flat_trader \<le> MAX_AVG_BUY_PRICE
   \<and> mean (trade_values flat_trader) \<le> MAX_AVG_TRADE_SIZE
   \<and> analyze_trader ''0xabc'' api_unresolved 349200 (map raw_of flat_trader) = None"
  using no_decided_group_rejected [of api_unresolved "map raw_of flat_trader" "''0xabc''" 349200]
  by (simp add: normalize_flat flat_market_pnl flat_filters round_trip_result_def
      MIN_TRADES_def MIN_MARKETS_def MAX_AVG_BUY_PRICE_def MAX_AVG_TRADE_SIZE_def)

end
